theory Spec2Isabelle
  imports Complex_Main
begin

section \<open>The relay: \<^verbatim>\<open>functions/api/[[proxy]].ts\<close>\<close>

subsection \<open>JavaScript values at the relay's boundaries\<close>

text \<open>
  Strings are byte lists (UTF-8); literals outside ASCII are written byte by byte.
  A value that is thrown is either an \<^verbatim>\<open>Error\<close> object (of any subclass), which carries
  a message, or some other value. The catch block of \<^verbatim>\<open>onRequestPost\<close> reads
  \<^verbatim>\<open>error instanceof Error ? error.message : 'An unknown error occurred.'\<close>.
\<close>

datatype thrown = ErrorObj string | NonError

fun errorMessage :: "thrown \<Rightarrow> string" where
  "errorMessage (ErrorObj m) = m"
| "errorMessage NonError = ''An unknown error occurred.''"

text \<open>An awaited promise either rejects with a thrown value or resolves.\<close>

datatype 'a promise = Rejects thrown | Resolves 'a

text \<open>
  Numbers. A number other than negative zero is determined by the text that
  \<^verbatim>\<open>Number.prototype.toString\<close> prints for it (\<^verbatim>\<open>0\<close>, \<^verbatim>\<open>0.7\<close>, \<^verbatim>\<open>80\<close>, \<^verbatim>\<open>1e+21\<close>), so a finite
  number is kept as that text; negative zero prints as \<^verbatim>\<open>0\<close> too and is kept apart, as
  are \<^verbatim>\<open>NaN\<close> and the two infinities.
\<close>

datatype number = NaN | PosInfinity | NegInfinity | NegativeZero | Finite string

fun Number_toString :: "number \<Rightarrow> string" where
  "Number_toString NaN = ''NaN''"
| "Number_toString PosInfinity = ''Infinity''"
| "Number_toString NegInfinity = ''-Infinity''"
| "Number_toString NegativeZero = ''0''"
| "Number_toString (Finite t) = t"

text \<open>
  The values \<^verbatim>\<open>JSON.parse\<close> can deliver, and \<^verbatim>\<open>undefined\<close>. An object is the list of its
  properties in the order of enumeration, no name twice. The type annotations of the
  source do not exist at run time: what the provider's completion parses to is any of
  these values.
\<close>

datatype js =
    Undefined
  | Null
  | Bool bool
  | Num number
  | Str string
  | Arr "js list"
  | Obj "(string \<times> js) list"

text \<open>
  \<^verbatim>\<open>JSON.parse(r.text.trim())\<close> on a completion \<^verbatim>\<open>r\<close>: the text may be undefined (then
  \<^verbatim>\<open>.trim()\<close> throws a TypeError), the text may fail to parse (a SyntaxError with some
  message), or a value is obtained.
\<close>

datatype parsed = TextUndefined | SyntaxErr string | Parsed js

definition trim_of_undefined :: string where
  "trim_of_undefined = ''Cannot read properties of undefined (reading 'trim')''"

definition join_of_undefined :: string where
  "join_of_undefined = ''Cannot read properties of undefined (reading 'join')''"

definition index0_of_undefined :: string where
  "index0_of_undefined = ''Cannot read properties of undefined (reading '0')''"

definition image_of_undefined :: string where
  "image_of_undefined = ''Cannot read properties of undefined (reading 'image')''"

definition imageBytes_of_undefined :: string where
  "imageBytes_of_undefined = ''Cannot read properties of undefined (reading 'imageBytes')''"

definition cannot_read :: "string \<Rightarrow> string \<Rightarrow> string" where
  "cannot_read v k =
     ''Cannot read properties of '' @ v @ '' (reading '' @ [CHR 0x27] @ k @ [CHR 0x27] @ '')''"

definition find_not_a_function :: string where
  "find_not_a_function = ''masterPrompts.find is not a function''"

definition toLowerCase_not_a_function :: string where
  "toLowerCase_not_a_function = ''p.language.toLowerCase is not a function''"

definition not_primitive :: string where
  "not_primitive = ''Cannot convert object to primitive value''"

text \<open>
  \<^verbatim>\<open>v.k\<close> for a property name \<open>k\<close> that no prototype and no string or array defines
  (\<^verbatim>\<open>prompts\<close>, \<^verbatim>\<open>language\<close>, \<^verbatim>\<open>prompt\<close>): reading it from undefined or null throws a
  TypeError, an object gives its own property, and every other value gives undefined.
\<close>

definition property :: "js \<Rightarrow> string \<Rightarrow> js" where
  "property v k =
     (case v of
        Obj ps \<Rightarrow> (case map_of ps k of None \<Rightarrow> Undefined | Some x \<Rightarrow> x)
      | _ \<Rightarrow> Undefined)"

definition getProperty :: "js \<Rightarrow> string \<Rightarrow> thrown + js" where
  "getProperty v k =
     (case v of
        Undefined \<Rightarrow> Inl (ErrorObj (cannot_read ''undefined'' k))
      | Null \<Rightarrow> Inl (ErrorObj (cannot_read ''null'' k))
      | _ \<Rightarrow> Inr (property v k))"

text \<open>The values that \<^verbatim>\<open>!v\<close>, \<^verbatim>\<open>||\<close> and \<^verbatim>\<open>if\<close> take for true.\<close>

fun truthy :: "js \<Rightarrow> bool" where
  "truthy Undefined = False"
| "truthy Null = False"
| "truthy (Bool b) = b"
| "truthy (Num n) = (n \<noteq> NaN \<and> n \<noteq> NegativeZero \<and> n \<noteq> Finite ''0'')"
| "truthy (Str s) = (s \<noteq> [])"
| "truthy (Arr xs) = True"
| "truthy (Obj ps) = True"

text \<open>
  The string that \<^verbatim>\<open>v + '...'\<close> puts in front. An array is joined with commas, its null
  entries giving the empty string. An object prints as \<^verbatim>\<open>[object Object]\<close>, unless it has
  a property \<^verbatim>\<open>toString\<close> of its own: that property is JSON data, so it cannot be called,
  \<^verbatim>\<open>valueOf\<close> does not yield a primitive either, and the conversion throws a TypeError.
\<close>

fun ToString :: "js \<Rightarrow> thrown + string" and join_elements :: "js list \<Rightarrow> thrown + string" where
  "ToString Undefined = Inr ''undefined''"
| "ToString Null = Inr ''null''"
| "ToString (Bool b) = Inr (if b then ''true'' else ''false'')"
| "ToString (Num n) = Inr (Number_toString n)"
| "ToString (Str s) = Inr s"
| "ToString (Arr xs) = join_elements xs"
| "ToString (Obj ps) =
     (if map_of ps ''toString'' = None then Inr ''[object Object]''
      else Inl (ErrorObj not_primitive))"
| "join_elements [] = Inr []"
| "join_elements (x # xs) =
     (case (case x of Undefined \<Rightarrow> Inr [] | Null \<Rightarrow> Inr [] | _ \<Rightarrow> ToString x) of
        Inl e \<Rightarrow> Inl e
      | Inr s \<Rightarrow>
          if xs = [] then Inr s
          else (case join_elements xs of
                  Inl e \<Rightarrow> Inl e
                | Inr r \<Rightarrow> Inr (s @ '','' @ r)))"

text \<open>
  \<^verbatim>\<open>JSON.stringify\<close>, read as the value that the text it writes denotes. A number that
  is not finite is written as \<^verbatim>\<open>null\<close> and negative zero as \<^verbatim>\<open>0\<close>; undefined is written
  as \<^verbatim>\<open>null\<close> in an array and a property that is undefined is left out; everything else
  is written as it is.
\<close>

definition JSON_stringify_number :: "number \<Rightarrow> number option" where
  "JSON_stringify_number n =
     (case n of
        NaN \<Rightarrow> None
      | PosInfinity \<Rightarrow> None
      | NegInfinity \<Rightarrow> None
      | NegativeZero \<Rightarrow> Some (Finite ''0'')
      | Finite t \<Rightarrow> Some (Finite t))"

fun JSON_stringify :: "js \<Rightarrow> js"
  and stringify_elements :: "js list \<Rightarrow> js list"
  and stringify_properties :: "(string \<times> js) list \<Rightarrow> (string \<times> js) list" where
  "JSON_stringify Undefined = Undefined"
| "JSON_stringify Null = Null"
| "JSON_stringify (Bool b) = Bool b"
| "JSON_stringify (Num n) = (case JSON_stringify_number n of None \<Rightarrow> Null | Some m \<Rightarrow> Num m)"
| "JSON_stringify (Str s) = Str s"
| "JSON_stringify (Arr xs) = Arr (stringify_elements xs)"
| "JSON_stringify (Obj ps) = Obj (stringify_properties ps)"
| "stringify_elements [] = []"
| "stringify_elements (x # xs) =
     (case JSON_stringify x of Undefined \<Rightarrow> Null | w \<Rightarrow> w) # stringify_elements xs"
| "stringify_properties [] = []"
| "stringify_properties ((k, v) # ps) =
     (case JSON_stringify v of
        Undefined \<Rightarrow> stringify_properties ps
      | w \<Rightarrow> (k, w) # stringify_properties ps)"

subsection \<open>Requests\<close>

record inline_file =
  data :: string
  mimeType :: string

text \<open>The payload of a \<^verbatim>\<open>generate\<close> envelope, as \<^verbatim>\<open>PromptGenerationRequest\<close> declares it.\<close>

record PromptGenerationRequest =
  context_in :: string
  objective :: string
  role :: string
  expectations :: string
  systemInstruction :: string
  promptBody :: string
  mediaInstruction :: string
  aiPlatform :: string
  outputType :: string
  file_in :: "inline_file option"
  previewLanguage :: string
  masterPromptLanguages :: "string list"
  temperature :: number
  topP :: number
  aspectRatio :: string

datatype payload = GeneratePayload PromptGenerationRequest | AnalyzePayload string

text \<open>
  \<^verbatim>\<open>ProxyRequestBody\<close>. The \<^verbatim>\<open>type\<close> is a string the client chose, or is missing;
  \<^verbatim>\<open>request.json()\<close> rejects when the body is not JSON.
\<close>

record ProxyRequestBody =
  btype :: "string option"
  payload :: payload

record Env =
  API_KEY :: "string option"

record Request =
  json :: "ProxyRequestBody promise"

subsection \<open>The provider\<close>

text \<open>
  A video operation: \<^verbatim>\<open>done\<close> (undefined counts as false) and the value of
  \<^verbatim>\<open>operation.response?.generatedVideos?.[0]?.video?.uri\<close>, undefined when any link of
  the chain is missing.
\<close>

record operation =
  op_done :: bool
  op_uri :: "string option"

record blob =
  blob_type :: string
  blob_bytes :: string

text \<open>
  What the provider answers to each call the relay can make. The answers are fixed in
  advance, like a test double; \<^verbatim>\<open>videoStatus k\<close> is the answer to the \<open>k\<close>-th call of
  \<^verbatim>\<open>getVideosOperation\<close>, counted from 0, and \<^verbatim>\<open>assetFetch url\<close> the outcome of
  \<^verbatim>\<open>fetch(url)\<close> followed by \<^verbatim>\<open>.blob()\<close>.
  \<^item> \<^verbatim>\<open>promptGeneration\<close> and \<^verbatim>\<open>promptAnalysis\<close>: the schema-constrained completions of
    \<^verbatim>\<open>handleGenerate\<close> and \<^verbatim>\<open>handleAnalyze\<close>, parsed;
  \<^item> \<^verbatim>\<open>imageGeneration\<close>: \<^verbatim>\<open>generatedImages\<close>, each entry with an optional
    \<^verbatim>\<open>image\<close> holding optional \<^verbatim>\<open>imageBytes\<close>.
\<close>

record provider =
  promptGeneration :: "parsed promise"
  imageGeneration :: "string option option list option promise"
  videoSubmission :: "operation promise"
  videoStatus :: "nat \<Rightarrow> operation promise"
  assetFetch :: "string \<Rightarrow> blob promise"
  textPreview :: "string option promise"
  promptAnalysis :: "parsed promise"

subsection \<open>Observable steps\<close>

text \<open>
  A part of a content request. The text of a text part is the base prompt as it was
  read from the completion, whatever value that is, until a string is appended to it.
\<close>

datatype part = TextPart js | InlineData string string

text \<open>
  The calls a run makes, in order. \<^verbatim>\<open>GenerateContentSchema\<close> is the completion requested
  with a response schema in \<^verbatim>\<open>handleGenerate\<close>; of the meta prompt it records the
  interpolated values in order (the wording between them is constant).
  \<^verbatim>\<open>GenerateContentParts\<close> is the text preview (parts, temperature, topP),
  \<^verbatim>\<open>GenerateContentAnalysis\<close> the completion of \<^verbatim>\<open>handleAnalyze\<close> with the prompt
  it embeds, \<^verbatim>\<open>GenerateImages\<close> has prompt and aspect ratio, \<^verbatim>\<open>GenerateVideos\<close> has
  prompt and optional image (bytes, MIME type), \<^verbatim>\<open>Sleep\<close> the milliseconds of
  \<^verbatim>\<open>setTimeout\<close>, \<^verbatim>\<open>GetVideosOperation\<close> the operation passed, \<^verbatim>\<open>Fetch\<close> the URL.
\<close>

datatype event =
    RequestJson
  | GenerateContentSchema "string list"
  | GenerateImages js string
  | GenerateVideos js "(string option \<times> string) option"
  | Sleep nat
  | GetVideosOperation operation
  | Fetch string
  | GenerateContentParts "part list" number number
  | GenerateContentAnalysis string

fun is_provider_call :: "event \<Rightarrow> bool" where
  "is_provider_call RequestJson = False"
| "is_provider_call (Sleep ms) = False"
| "is_provider_call e = True"

fun is_status_check :: "event \<Rightarrow> bool" where
  "is_status_check (GetVideosOperation operation) = True"
| "is_status_check e = False"

definition status_checks :: "event list \<Rightarrow> nat" where
  "status_checks tr = length (filter is_status_check tr)"

subsection \<open>Responses\<close>

datatype preview_type = TextKind | ImageKind | VideoKind

record preview =
  ptype :: "preview_type option"
  content :: "string option"

datatype body =
    ErrorBody string
  | GenerateBody js preview
  | AnalyzeBody js

type_synonym response = "nat \<times> body"

text \<open>
  \<^verbatim>\<open>jsonResponse(data, status)\<close>: the status, and as body what \<^verbatim>\<open>JSON.stringify\<close> writes
  for the data. The \<^verbatim>\<open>content\<close> of a preview is left out when it is undefined (\<open>None\<close>).
\<close>

definition JSON_stringify_body :: "body \<Rightarrow> body" where
  "JSON_stringify_body d =
     (case d of
        ErrorBody msg \<Rightarrow> ErrorBody msg
      | GenerateBody masterPrompts pv \<Rightarrow> GenerateBody (JSON_stringify masterPrompts) pv
      | AnalyzeBody r \<Rightarrow> AnalyzeBody (JSON_stringify r))"

definition jsonResponse :: "body \<Rightarrow> nat \<Rightarrow> response" where
  "jsonResponse d status = (status, JSON_stringify_body d)"

subsection \<open>Helpers\<close>

definition b64chars :: string where
  "b64chars = ''ABCDEFGHIJKLMNOPQRSTUVWXYZabcdefghijklmnopqrstuvwxyz0123456789+/''"

definition b64 :: "nat \<Rightarrow> char" where
  "b64 n = b64chars ! (n mod 64)"

text \<open>\<^verbatim>\<open>btoa\<close> on a binary string, three bytes at a time.\<close>

fun btoa :: "string \<Rightarrow> string" where
  "btoa [] = []"
| "btoa [a] =
     (let x = (of_char a :: nat) in [b64 (x div 4), b64 ((x mod 4) * 16), CHR ''='', CHR ''=''])"
| "btoa [a, b] =
     (let x = (of_char a :: nat); y = (of_char b :: nat)
      in [b64 (x div 4), b64 ((x mod 4) * 16 + y div 16), b64 ((y mod 16) * 4), CHR ''=''])"
| "btoa (a # b # c # rest) =
     (let x = (of_char a :: nat); y = (of_char b :: nat); z = (of_char c :: nat)
      in [b64 (x div 4), b64 ((x mod 4) * 16 + y div 16),
          b64 ((y mod 16) * 4 + z div 64), b64 (z mod 64)] @ btoa rest)"

text \<open>
  \<^verbatim>\<open>arrayBufferToBase64\<close>: the loop appends \<^verbatim>\<open>String.fromCharCode(bytes[i])\<close> for each
  byte, which yields the bytes themselves as a binary string, then calls \<^verbatim>\<open>btoa\<close>.
\<close>

definition arrayBufferToBase64 :: "string \<Rightarrow> string" where
  "arrayBufferToBase64 buffer = btoa (foldl (\<lambda>binary byte. binary @ [byte]) [] buffer)"

text \<open>\<^verbatim>\<open>Array.prototype.join\<close> and \<^verbatim>\<open>String.prototype.split\<close> with a one-character separator.\<close>

fun join_str :: "string \<Rightarrow> string list \<Rightarrow> string" where
  "join_str sep [] = []"
| "join_str sep [x] = x"
| "join_str sep (x # y # ys) = x @ sep @ join_str sep (y # ys)"

fun split_str :: "char \<Rightarrow> string \<Rightarrow> string list" where
  "split_str sep [] = [[]]"
| "split_str sep (c # cs) =
     (if c = sep then [] # split_str sep cs
      else (case split_str sep cs of
              [] \<Rightarrow> [[c]]
            | x # xs \<Rightarrow> (c # x) # xs))"

text \<open>
  \<^verbatim>\<open>toLowerCase\<close>, on the letters A to Z. The source compares the result with
  \<^verbatim>\<open>'english'\<close> only, and no character outside A to Z lowers to one of the letters of
  that word, so the comparison is decided by these letters.
\<close>

definition toLowerCase :: "string \<Rightarrow> string" where
  "toLowerCase s =
     map (\<lambda>c. case map_of (zip ''ABCDEFGHIJKLMNOPQRSTUVWXYZ'' ''abcdefghijklmnopqrstuvwxyz'') c of
                 None \<Rightarrow> c
               | Some l \<Rightarrow> l) s"

text \<open>\<^verbatim>\<open>const [header, base64Data] = file.data.split(',')\<close>: the second component, if any.\<close>

definition base64Data :: "inline_file \<Rightarrow> string option" where
  "base64Data f = (case split_str CHR '','' (data f) of
                     header # b # rest \<Rightarrow> Some b
                   | _ \<Rightarrow> None)"

definition IMAGE_OUTPUT_TYPES :: "string list" where
  "IMAGE_OUTPUT_TYPES =
     [''Image'',
      [CHR 0xE1, CHR 0xBA, CHR 0xA2] @ ''nh'',
      ''H'' @ [CHR 0xC3, CHR 0xAC] @ ''nh '' @ [CHR 0xE1, CHR 0xBA, CHR 0xA3] @ ''nh'']"

definition VIDEO_OUTPUT_TYPES :: "string list" where
  "VIDEO_OUTPUT_TYPES =
     [''Video'', ''Phim ng'' @ [CHR 0xE1, CHR 0xBA, CHR 0xAF] @ ''n'']"

text \<open>The values interpolated into the meta prompt, in the order of the template.\<close>

definition metaPrompt :: "PromptGenerationRequest \<Rightarrow> string \<Rightarrow> string list" where
  "metaPrompt d languagesString =
     [context_in d, objective d, role d, expectations d, systemInstruction d, promptBody d,
      (if mediaInstruction d \<noteq> [] then mediaInstruction d
       else ''Kh'' @ [CHR 0xC3, CHR 0xB4] @ ''ng c'' @ [CHR 0xC3, CHR 0xB3]),
      aiPlatform d, outputType d, languagesString]"

subsection \<open>\<^verbatim>\<open>handleGenerate\<close>\<close>

text \<open>
  \<^verbatim>\<open>const masterPrompts = result.prompts\<close> and the test
  \<^verbatim>\<open>!masterPrompts || masterPrompts.length === 0\<close> that follows it. \<^verbatim>\<open>length\<close> is the number of
  elements of an array and of characters of a string, a property like any other of an
  object, and undefined on a boolean or a number.
\<close>

definition length_is_0 :: "js \<Rightarrow> bool" where
  "length_is_0 v =
     (case v of
        Arr xs \<Rightarrow> length xs = 0
      | Str s \<Rightarrow> length s = 0
      | Obj ps \<Rightarrow>
          (case map_of ps ''length'' of
             Some (Num n) \<Rightarrow> n = Finite ''0'' \<or> n = NegativeZero
           | _ \<Rightarrow> False)
      | _ \<Rightarrow> False)"

definition masterPromptsOf :: "js \<Rightarrow> thrown + js" where
  "masterPromptsOf result =
     (case getProperty result ''prompts'' of
        Inl e \<Rightarrow> Inl e
      | Inr masterPrompts \<Rightarrow>
          if \<not> truthy masterPrompts \<or> length_is_0 masterPrompts then
            Inl (ErrorObj ''AI did not return any prompts.'')
          else Inr masterPrompts)"

text \<open>
  \<^verbatim>\<open>masterPrompts.find(p => p.language.toLowerCase() === 'english')?.prompt
    || masterPrompts[0].prompt\<close>.
  \<open>isEnglish\<close> is the function passed to \<^verbatim>\<open>find\<close>: it throws a TypeError on an entry
  whose \<^verbatim>\<open>language\<close> is not a string, since no other value has a method
  \<^verbatim>\<open>toLowerCase\<close>. \<open>array_find\<close> is \<^verbatim>\<open>Array.prototype.find\<close>: the first element for which
  the function is true, undefined when there is none, and what the function throws on
  the way. Only an array has a method \<^verbatim>\<open>find\<close>. The right operand of \<^verbatim>\<open>||\<close> is evaluated
  when the left one is not \<open>truthy\<close>: no entry found, or an entry whose \<^verbatim>\<open>prompt\<close> is
  missing, empty, null, false or zero.
\<close>

definition isEnglish :: "js \<Rightarrow> thrown + bool" where
  "isEnglish p =
     (case getProperty p ''language'' of
        Inl e \<Rightarrow> Inl e
      | Inr l \<Rightarrow>
          (case l of
             Str s \<Rightarrow> Inr (toLowerCase s = ''english'')
           | Undefined \<Rightarrow> Inl (ErrorObj (cannot_read ''undefined'' ''toLowerCase''))
           | Null \<Rightarrow> Inl (ErrorObj (cannot_read ''null'' ''toLowerCase''))
           | _ \<Rightarrow> Inl (ErrorObj toLowerCase_not_a_function)))"

fun array_find :: "(js \<Rightarrow> thrown + bool) \<Rightarrow> js list \<Rightarrow> thrown + js" where
  "array_find f [] = Inr Undefined"
| "array_find f (x # xs) =
     (case f x of
        Inl e \<Rightarrow> Inl e
      | Inr b \<Rightarrow> if b then Inr x else array_find f xs)"

definition basePromptForPreview :: "js \<Rightarrow> thrown + js" where
  "basePromptForPreview masterPrompts =
     (case masterPrompts of
        Arr entries \<Rightarrow>
          (case array_find isEnglish entries of
             Inl e \<Rightarrow> Inl e
           | Inr found \<Rightarrow>
               (case (case found of
                        Undefined \<Rightarrow> Inr Undefined
                      | Null \<Rightarrow> Inr Undefined
                      | _ \<Rightarrow> getProperty found ''prompt'') of
                  Inl e \<Rightarrow> Inl e
                | Inr p \<Rightarrow>
                    if truthy p then Inr p
                    else getProperty (case entries of [] \<Rightarrow> Undefined | p0 # rest \<Rightarrow> p0)
                           ''prompt''))
      | Undefined \<Rightarrow> Inl (ErrorObj (cannot_read ''undefined'' ''find''))
      | Null \<Rightarrow> Inl (ErrorObj (cannot_read ''null'' ''find''))
      | _ \<Rightarrow> Inl (ErrorObj find_not_a_function))"

definition previewPromptParts :: "js \<Rightarrow> inline_file option \<Rightarrow> part list" where
  "previewPromptParts basePrompt fl =
     (case fl of
        None \<Rightarrow> [TextPart basePrompt]
      | Some f \<Rightarrow>
          (case base64Data f of
             None \<Rightarrow> [TextPart basePrompt]
           | Some b \<Rightarrow>
               if b \<noteq> [] then [InlineData (mimeType f) b, TextPart basePrompt]
               else [TextPart basePrompt]))"

text \<open>
  The loop \<^verbatim>\<open>while (!operation.done) { await sleep; operation = await
  ai.operations.getVideosOperation({ operation }) }\<close>. \<open>k\<close> counts the status checks made
  so far and \<open>tr\<close> is the trace so far. \<open>None\<close> is a loop that never ends. The relay
  sleeps 5000 ms; the same loop in \<^verbatim>\<open>GeminiService.generateProfessionalPrompt\<close> sleeps
  10000 ms.
\<close>

partial_function (option) pollVideo ::
  "nat \<Rightarrow> (nat \<Rightarrow> operation promise) \<Rightarrow> nat \<Rightarrow> operation \<Rightarrow> event list
     \<Rightarrow> (event list \<times> (thrown + operation)) option" where
  "pollVideo interval status k operation tr =
     (if op_done operation then Some (tr, Inr operation)
      else (case status k of
              Rejects e \<Rightarrow> Some (tr @ [Sleep interval, GetVideosOperation operation], Inl e)
            | Resolves operation' \<Rightarrow>
                pollVideo interval status (Suc k) operation'
                  (tr @ [Sleep interval, GetVideosOperation operation])))"

declare pollVideo.simps [code]

text \<open>The image branch: one call, then \<^verbatim>\<open>generatedImages[0].image.imageBytes\<close>.\<close>

definition imagePreview ::
  "provider \<Rightarrow> js \<Rightarrow> string \<Rightarrow> event list \<Rightarrow> event list \<times> (thrown + preview)" where
  "imagePreview ai basePrompt ratio tr =
     (let tr' = tr @ [GenerateImages basePrompt ratio]
      in case imageGeneration ai of
           Rejects e \<Rightarrow> (tr', Inl e)
         | Resolves None \<Rightarrow> (tr', Inl (ErrorObj index0_of_undefined))
         | Resolves (Some []) \<Rightarrow> (tr', Inl (ErrorObj image_of_undefined))
         | Resolves (Some (None # rest)) \<Rightarrow> (tr', Inl (ErrorObj imageBytes_of_undefined))
         | Resolves (Some (Some bytes # rest)) \<Rightarrow>
             (tr', Inr \<lparr>ptype = Some ImageKind,
                        content = Some (''data:image/png;base64,'' @
                                        (case bytes of None \<Rightarrow> ''undefined'' | Some b \<Rightarrow> b))\<rparr>))"

text \<open>
  The video branch. \<^verbatim>\<open>videoGenImage\<close> is the \<^verbatim>\<open>image\<close> entry of the parameters, set
  when the file is an image; \<^verbatim>\<open>materializeVideo\<close> is what follows the loop: the download
  link is read from the finished operation, the asset is fetched and encoded.
\<close>

definition videoGenImage :: "inline_file option \<Rightarrow> (string option \<times> string) option" where
  "videoGenImage fl =
     (case fl of
        None \<Rightarrow> None
      | Some f \<Rightarrow>
          if take 6 (mimeType f) = ''image/'' then Some (base64Data f, mimeType f)
          else None)"

definition materializeVideo ::
  "provider \<Rightarrow> operation \<Rightarrow> string \<Rightarrow> event list \<Rightarrow> event list \<times> (thrown + preview)" where
  "materializeVideo ai operation apiKey tr =
     (case op_uri operation of
        None \<Rightarrow> (tr, Inl (ErrorObj ''Could not generate video.''))
      | Some downloadLink \<Rightarrow>
          if downloadLink = [] then (tr, Inl (ErrorObj ''Could not generate video.''))
          else
            (let url = downloadLink @ ''&key='' @ apiKey
             in case assetFetch ai url of
                  Rejects e \<Rightarrow> (tr @ [Fetch url], Inl e)
                | Resolves videoBlob \<Rightarrow>
                    (tr @ [Fetch url],
                     Inr \<lparr>ptype = Some VideoKind,
                          content = Some (''data:'' @ blob_type videoBlob @ '';base64,'' @
                                          arrayBufferToBase64 (blob_bytes videoBlob))\<rparr>)))"

definition videoPreview ::
  "provider \<Rightarrow> js \<Rightarrow> inline_file option \<Rightarrow> string \<Rightarrow> event list
     \<Rightarrow> (event list \<times> (thrown + preview)) option" where
  "videoPreview ai basePrompt fl apiKey tr =
     (let tr' = tr @ [GenerateVideos basePrompt (videoGenImage fl)]
      in case videoSubmission ai of
           Rejects e \<Rightarrow> Some (tr', Inl e)
         | Resolves operation0 \<Rightarrow>
             (case pollVideo 5000 (videoStatus ai) 0 operation0 tr' of
                None \<Rightarrow> None
              | Some (tr'', Inl e) \<Rightarrow> Some (tr'', Inl e)
              | Some (tr'', Inr operation) \<Rightarrow> Some (materializeVideo ai operation apiKey tr'')))"

text \<open>
  The text branch: the instruction is appended with \<^verbatim>\<open>+=\<close> to the text of the last part
  when that part is a text part, which turns a text that is not a string into one (and
  throws when it cannot); then one completion with the caller's temperature and topP.
\<close>

definition finalPromptForTextPreview :: "part list \<Rightarrow> string \<Rightarrow> thrown + part list" where
  "finalPromptForTextPreview parts lang =
     (if parts = [] then Inr parts
      else (case last parts of
              TextPart t \<Rightarrow>
                (case ToString t of
                   Inl e \<Rightarrow> Inl e
                 | Inr s \<Rightarrow>
                     Inr (butlast parts @
                            [TextPart (Str (s @ [CHR 0x0A, CHR 0x0A] @
                               ''--- IMPORTANT: Please provide your entire response in '' @ lang @
                               ''. ---''))]))
            | InlineData m b \<Rightarrow> Inr parts))"

definition textPreviewOf ::
  "provider \<Rightarrow> part list \<Rightarrow> PromptGenerationRequest \<Rightarrow> event list
     \<Rightarrow> event list \<times> (thrown + preview)" where
  "textPreviewOf ai parts d tr =
     (case finalPromptForTextPreview parts (previewLanguage d) of
        Inl e \<Rightarrow> (tr, Inl e)
      | Inr final \<Rightarrow>
          (let tr' = tr @ [GenerateContentParts final (temperature d) (topP d)]
           in case textPreview ai of
                Rejects e \<Rightarrow> (tr', Inl e)
              | Resolves txt \<Rightarrow> (tr', Inr \<lparr>ptype = Some TextKind, content = txt\<rparr>)))"

text \<open>
  The end of \<^verbatim>\<open>handleGenerate\<close>: a value thrown in the branch propagates, a preview is
  returned with the prompts by \<^verbatim>\<open>jsonResponse({ masterPrompts, preview })\<close>.
\<close>

definition respond ::
  "js \<Rightarrow> event list \<times> (thrown + preview) \<Rightarrow> event list \<times> (thrown + response)" where
  "respond masterPrompts r =
     (case r of
        (tr, Inl e) \<Rightarrow> (tr, Inl e)
      | (tr, Inr pv) \<Rightarrow> (tr, Inr (jsonResponse (GenerateBody masterPrompts pv) 200)))"

text \<open>
  \<^verbatim>\<open>handleGenerate(ai, data, apiKey)\<close>. The result is \<open>None\<close> when the function never
  returns, and otherwise the trace with either the value thrown or the response.
  A payload without \<^verbatim>\<open>masterPromptLanguages\<close> throws at \<^verbatim>\<open>.join\<close>.
\<close>

definition handleGenerate ::
  "provider \<Rightarrow> payload \<Rightarrow> string \<Rightarrow> event list \<Rightarrow> (event list \<times> (thrown + response)) option" where
  "handleGenerate ai dat apiKey tr =
     (case dat of
        AnalyzePayload p \<Rightarrow> Some (tr, Inl (ErrorObj join_of_undefined))
      | GeneratePayload d \<Rightarrow>
          (let languagesString = join_str '', '' (masterPromptLanguages d);
               tr1 = tr @ [GenerateContentSchema (metaPrompt d languagesString)]
           in case promptGeneration ai of
                Rejects e \<Rightarrow> Some (tr1, Inl e)
              | Resolves TextUndefined \<Rightarrow> Some (tr1, Inl (ErrorObj trim_of_undefined))
              | Resolves (SyntaxErr m) \<Rightarrow> Some (tr1, Inl (ErrorObj m))
              | Resolves (Parsed result) \<Rightarrow>
                  (case masterPromptsOf result of
                     Inl e \<Rightarrow> Some (tr1, Inl e)
                   | Inr masterPrompts \<Rightarrow>
                       (case basePromptForPreview masterPrompts of
                          Inl e \<Rightarrow> Some (tr1, Inl e)
                        | Inr basePrompt \<Rightarrow>
                            (let parts = previewPromptParts basePrompt (file_in d)
                             in if outputType d \<in> set IMAGE_OUTPUT_TYPES then
                                  Some (respond masterPrompts
                                          (imagePreview ai basePrompt (aspectRatio d) tr1))
                                else if outputType d \<in> set VIDEO_OUTPUT_TYPES then
                                  map_option (respond masterPrompts)
                                    (videoPreview ai basePrompt (file_in d) apiKey tr1)
                                else
                                  Some (respond masterPrompts
                                          (textPreviewOf ai parts d tr1)))))))"

subsection \<open>\<^verbatim>\<open>handleAnalyze\<close>\<close>

text \<open>
  A payload without \<^verbatim>\<open>promptToAnalyze\<close> is rendered as \<^verbatim>\<open>undefined\<close> by the template.
  The parsed completion is returned as it is.
\<close>

definition handleAnalyze ::
  "provider \<Rightarrow> payload \<Rightarrow> event list \<Rightarrow> (event list \<times> (thrown + response)) option" where
  "handleAnalyze ai dat tr =
     (let promptToAnalyze = (case dat of
                               AnalyzePayload p \<Rightarrow> p
                             | GeneratePayload d \<Rightarrow> ''undefined'');
          tr1 = tr @ [GenerateContentAnalysis promptToAnalyze]
      in case promptAnalysis ai of
           Rejects e \<Rightarrow> Some (tr1, Inl e)
         | Resolves TextUndefined \<Rightarrow> Some (tr1, Inl (ErrorObj trim_of_undefined))
         | Resolves (SyntaxErr m) \<Rightarrow> Some (tr1, Inl (ErrorObj m))
         | Resolves (Parsed r) \<Rightarrow> Some (tr1, Inr (jsonResponse (AnalyzeBody r) 200)))"

subsection \<open>\<^verbatim>\<open>onRequestPost\<close>\<close>

text \<open>
  The body of the \<^verbatim>\<open>try\<close> block: read the envelope, then switch on its type.
\<close>

definition dispatch ::
  "Request \<Rightarrow> provider \<Rightarrow> string \<Rightarrow> (event list \<times> (thrown + response)) option" where
  "dispatch request ai apiKey =
     (case json request of
        Rejects e \<Rightarrow> Some ([RequestJson], Inl e)
      | Resolves b \<Rightarrow>
          if btype b = Some ''generate'' then handleGenerate ai (payload b) apiKey [RequestJson]
          else if btype b = Some ''analyze'' then handleAnalyze ai (payload b) [RequestJson]
          else Some ([RequestJson], Inr (jsonResponse (ErrorBody ''Invalid request type'') 400)))"

text \<open>
  \<^verbatim>\<open>onRequestPost\<close>: the credential check (\<^verbatim>\<open>!apiKey\<close> holds for a missing and for an
  empty key), then the \<^verbatim>\<open>try\<close> block, whose failures the \<^verbatim>\<open>catch\<close> block turns into a
  response with status 500. \<open>ai\<close> is the behaviour of the provider behind the client
  the function creates from the key. The \<^verbatim>\<open>console.error\<close> of the \<^verbatim>\<open>catch\<close> block is not
  recorded in the trace.
\<close>

definition onRequestPost ::
  "Env \<Rightarrow> Request \<Rightarrow> provider \<Rightarrow> (event list \<times> response) option" where
  "onRequestPost env request ai =
     (let unconfigured =
            Some ([], jsonResponse (ErrorBody ''API_KEY is not configured on the server.'') 500)
      in case API_KEY env of
           None \<Rightarrow> unconfigured
         | Some apiKey \<Rightarrow>
             if apiKey = [] then unconfigured
             else (case dispatch request ai apiKey of
                     None \<Rightarrow> None
                   | Some (tr, Inl error) \<Rightarrow>
                       Some (tr, jsonResponse (ErrorBody (errorMessage error)) 500)
                   | Some (tr, Inr r) \<Rightarrow> Some (tr, r)))"

subsection \<open>Quantities the properties speak about\<close>

text \<open>
  The branch conditions of \<^verbatim>\<open>handleGenerate\<close> (the \<^verbatim>\<open>if\<close>, the \<^verbatim>\<open>else if\<close> and the
  \<^verbatim>\<open>else\<close> over the two membership tests), read as a function of the output type.
\<close>

definition pathway :: "string \<Rightarrow> preview_type" where
  "pathway ot =
     (if ot \<in> set IMAGE_OUTPUT_TYPES then ImageKind
      else if ot \<in> set VIDEO_OUTPUT_TYPES then VideoKind
      else TextKind)"

text \<open>Which branch a call belongs to; the calls before the branch belong to none.\<close>

fun call_pathway :: "event \<Rightarrow> preview_type option" where
  "call_pathway (GenerateImages p a) = Some ImageKind"
| "call_pathway (GenerateVideos p i) = Some VideoKind"
| "call_pathway (Sleep ms) = Some VideoKind"
| "call_pathway (GetVideosOperation operation) = Some VideoKind"
| "call_pathway (Fetch url) = Some VideoKind"
| "call_pathway (GenerateContentParts ps t p) = Some TextKind"
| "call_pathway e = None"

text \<open>One round of the loop per operation held when the round starts.\<close>

definition poll_events :: "nat \<Rightarrow> operation list \<Rightarrow> event list" where
  "poll_events interval ops =
     concat (map (\<lambda>operation. [Sleep interval, GetVideosOperation operation]) ops)"

text \<open>
  The calls of a trace that are made once at most: every provider call except the
  status check, which the loop repeats.
\<close>

fun single_call :: "event \<Rightarrow> nat option" where
  "single_call (GenerateContentSchema vs) = Some 0"
| "single_call (GenerateImages p a) = Some 1"
| "single_call (GenerateVideos p i) = Some 2"
| "single_call (Fetch url) = Some 3"
| "single_call (GenerateContentParts ps t p) = Some 4"
| "single_call (GenerateContentAnalysis p) = Some 5"
| "single_call e = None"

text \<open>The first call of \<^verbatim>\<open>handleGenerate\<close>, as it appears in a trace.\<close>

abbreviation schemaCall :: "PromptGenerationRequest \<Rightarrow> event" where
  "schemaCall d \<equiv> GenerateContentSchema (metaPrompt d (join_str '', '' (masterPromptLanguages d)))"

text \<open>
  The first call of the branch that the output type selects, for a base prompt; the
  text branch makes none when the base prompt cannot be turned into a string.
\<close>

definition previewCall :: "js \<Rightarrow> PromptGenerationRequest \<Rightarrow> event option" where
  "previewCall b d =
     (case pathway (outputType d) of
        ImageKind \<Rightarrow> Some (GenerateImages b (aspectRatio d))
      | VideoKind \<Rightarrow> Some (GenerateVideos b (videoGenImage (file_in d)))
      | TextKind \<Rightarrow>
          (case finalPromptForTextPreview (previewPromptParts b (file_in d)) (previewLanguage d) of
             Inl e \<Rightarrow> None
           | Inr final \<Rightarrow> Some (GenerateContentParts final (temperature d) (topP d))))"

text \<open>
  An entry and a completion as the response schema of \<^verbatim>\<open>handleGenerate\<close> describes them:
  an object with the array \<^verbatim>\<open>prompts\<close>, each entry an object with the strings
  \<^verbatim>\<open>language\<close> and \<^verbatim>\<open>prompt\<close>.
\<close>

definition entry :: "string \<Rightarrow> string \<Rightarrow> js" where
  "entry l t = Obj [(''language'', Str l), (''prompt'', Str t)]"

definition completion :: "js list \<Rightarrow> parsed" where
  "completion entries = Parsed (Obj [(''prompts'', Arr entries)])"

text \<open>
  The values that \<^verbatim>\<open>JSON.stringify\<close> writes as they are: nothing in them is undefined, and
  every number in them is finite and not negative zero.
\<close>

fun plain :: "js \<Rightarrow> bool"
  and plain_elements :: "js list \<Rightarrow> bool"
  and plain_properties :: "(string \<times> js) list \<Rightarrow> bool" where
  "plain Undefined = False"
| "plain Null = True"
| "plain (Bool b) = True"
| "plain (Num n) = (case n of Finite t \<Rightarrow> True | _ \<Rightarrow> False)"
| "plain (Str s) = True"
| "plain (Arr xs) = plain_elements xs"
| "plain (Obj ps) = plain_properties ps"
| "plain_elements [] = True"
| "plain_elements (x # xs) = (plain x \<and> plain_elements xs)"
| "plain_properties [] = True"
| "plain_properties ((k, v) # ps) = (plain v \<and> plain_properties ps)"

section \<open>The client: \<^verbatim>\<open>src/app.component.ts\<close>\<close>

text \<open>
  The state of the component, typed as the source declares it. A \<^verbatim>\<open>number\<close> is any
  number of JavaScript, \<^verbatim>\<open>NaN\<close>, the infinities and negative zero among them.
\<close>

datatype tab = create | analyze

record master_prompt =
  language :: string
  prompt :: string

record analysis_fields =
  a_context :: string
  a_objective :: string
  a_role :: string
  a_expectations :: string

record PromptAnalysisResult =
  score :: number
  analysis :: analysis_fields
  suggestions :: string

record GenerationState =
  gs_masterPrompts :: "master_prompt list"
  gs_preview :: preview
  gs_isLoading :: bool
  gs_error :: "string option"
  gs_loadingMessage :: string

record AnalysisState =
  as_result :: "PromptAnalysisResult option"
  as_isLoading :: bool
  as_error :: "string option"

record uploaded_file =
  uf_data :: string
  uf_mimeType :: string
  uf_name :: string

text \<open>
  The signals of \<^verbatim>\<open>AppComponent\<close>. \<^verbatim>\<open>masterLanguages\<close> is an object with string keys,
  kept as the list of its entries in key order.
\<close>

record AppComponent =
  activeTab :: tab
  s_context :: string
  s_objective :: string
  s_role :: string
  s_expectations :: string
  s_systemInstruction :: string
  s_promptBody :: string
  s_mediaInstruction :: string
  s_aiPlatform :: string
  s_outputType :: string
  s_uploadedFile :: "uploaded_file option"
  s_previewLanguage :: string
  s_masterLanguages :: "(string \<times> bool) list"
  s_temperature :: number
  s_topP :: number
  s_aspectRatio :: string
  generationState :: GenerationState
  promptToAnalyze :: string
  analysisState :: AnalysisState

text \<open>
  \<^verbatim>\<open>PromptProject\<close>: the object that \<^verbatim>\<open>exportProject\<close> builds and the value that
  \<^verbatim>\<open>JSON.parse\<close> delivers to \<^verbatim>\<open>onProjectImport\<close>. Of the latter every property may be
  missing or null, which \<^verbatim>\<open>??\<close> treats alike (\<open>None\<close>).
\<close>

record PromptProject =
  p_context :: "string option"
  p_objective :: "string option"
  p_role :: "string option"
  p_expectations :: "string option"
  p_systemInstruction :: "string option"
  p_promptBody :: "string option"
  p_mediaInstruction :: "string option"
  p_aiPlatform :: "string option"
  p_outputType :: "string option"
  p_uploadedFile :: "uploaded_file option"
  p_previewLanguage :: "string option"
  p_masterLanguages :: "(string \<times> bool) list option"
  p_temperature :: "number option"
  p_topP :: "number option"
  p_aspectRatio :: "string option"
  p_generationState :: "GenerationState option"

text \<open>
  The text of a project file: it is not JSON, or it is the text \<^verbatim>\<open>null\<close>, or it is the
  JSON text of a document, kept as the value it denotes. Of a number that is the number
  its literal is read as: \<^verbatim>\<open>-0\<close> denotes negative zero and \<^verbatim>\<open>1e999\<close> infinity, and no
  literal denotes \<^verbatim>\<open>NaN\<close>. A text that denotes a string, a number, a boolean or an array
  is a document without properties.
\<close>

datatype file_text = NotJson | JsonNull | JsonText PromptProject

text \<open>
  \<^verbatim>\<open>JSON.stringify\<close> on a project. Its two numbers are written as
  \<open>JSON_stringify_number\<close> says: \<^verbatim>\<open>null\<close> when not finite, \<^verbatim>\<open>0\<close> for negative zero.
  Strings, booleans, null, and the objects and arrays of these are written as they are.
\<close>

definition JSON_stringify_project :: "PromptProject \<Rightarrow> file_text" where
  "JSON_stringify_project project =
     JsonText (project
       \<lparr>p_temperature := Option.bind (p_temperature project) JSON_stringify_number,
        p_topP := Option.bind (p_topP project) JSON_stringify_number\<rparr>)"

text \<open>\<^verbatim>\<open>JSON.parse\<close>: it throws a SyntaxError, or yields null or a document.\<close>

datatype parsed_file = SyntaxError | ParsedNull | ParsedProject PromptProject

definition JSON_parse :: "file_text \<Rightarrow> parsed_file" where
  "JSON_parse t =
     (case t of
        NotJson \<Rightarrow> SyntaxError
      | JsonNull \<Rightarrow> ParsedNull
      | JsonText project \<Rightarrow> ParsedProject project)"

definition defaultMasterLanguages :: "(string \<times> bool) list" where
  "defaultMasterLanguages =
     [(''English'', True), (''Vietnamese'', True), (''Chinese'', False),
      (''French'', False), (''Japanese'', False), (''Spanish'', False)]"

definition defaultGenerationState :: GenerationState where
  "defaultGenerationState =
     \<lparr>gs_masterPrompts = [], gs_preview = \<lparr>ptype = None, content = Some []\<rparr>,
      gs_isLoading = False, gs_error = None, gs_loadingMessage = ''...''\<rparr>"

text \<open>The component as its field initialisers create it.\<close>

definition initial :: AppComponent where
  "initial =
     \<lparr>activeTab = create,
      s_context = [], s_objective = [], s_role = [], s_expectations = [],
      s_systemInstruction = [], s_promptBody = [], s_mediaInstruction = [],
      s_aiPlatform = ''Gemini'', s_outputType = ''Image'', s_uploadedFile = None,
      s_previewLanguage = ''Vietnamese'',
      s_masterLanguages =
        [(''English'', True), (''Vietnamese'', True), (''Chinese'', False),
         (''French'', False), (''Japanese'', False), (''Spanish'', False)],
      s_temperature = Finite ''0.7'', s_topP = Finite ''0.95'', s_aspectRatio = ''1:1'',
      generationState =
        \<lparr>gs_masterPrompts = [], gs_preview = \<lparr>ptype = None, content = Some []\<rparr>,
         gs_isLoading = False, gs_error = None, gs_loadingMessage = ''...''\<rparr>,
      promptToAnalyze = [],
      analysisState = \<lparr>as_result = None, as_isLoading = False, as_error = None\<rparr>\<rparr>"

text \<open>\<^verbatim>\<open>exportProject\<close>: the text of the file that is downloaded.\<close>

definition exportProject :: "AppComponent \<Rightarrow> file_text" where
  "exportProject c =
     (let project =
            \<lparr>p_context = Some (s_context c), p_objective = Some (s_objective c),
             p_role = Some (s_role c), p_expectations = Some (s_expectations c),
             p_systemInstruction = Some (s_systemInstruction c),
             p_promptBody = Some (s_promptBody c),
             p_mediaInstruction = Some (s_mediaInstruction c),
             p_aiPlatform = Some (s_aiPlatform c), p_outputType = Some (s_outputType c),
             p_uploadedFile = s_uploadedFile c,
             p_previewLanguage = Some (s_previewLanguage c),
             p_masterLanguages = Some (s_masterLanguages c),
             p_temperature = Some (s_temperature c), p_topP = Some (s_topP c),
             p_aspectRatio = Some (s_aspectRatio c),
             p_generationState = Some (generationState c)\<rparr>
      in JSON_stringify_project project)"

text \<open>\<^verbatim>\<open>a ?? b\<close>.\<close>

definition nullish :: "'a option \<Rightarrow> 'a \<Rightarrow> 'a" where
  "nullish a b = (case a of None \<Rightarrow> b | Some v \<Rightarrow> v)"

text \<open>
  \<^verbatim>\<open>onProjectImport\<close> with the \<^verbatim>\<open>onload\<close> handler of its reader: no file chosen leaves
  the component as it is. \<open>import_failed\<close> is the \<^verbatim>\<open>catch\<close> block, entered when
  \<^verbatim>\<open>JSON.parse\<close> throws and when it yields null, since reading \<^verbatim>\<open>project.context\<close> then
  throws before any signal is set.
\<close>

definition import_failed :: "AppComponent \<Rightarrow> AppComponent" where
  "import_failed c =
     c\<lparr>generationState := (generationState c)\<lparr>gs_error :=
          Some (''T'' @ [CHR 0xE1, CHR 0xBB, CHR 0x87] @ ''p d'' @ [CHR 0xE1, CHR 0xBB, CHR 0xB1] @
                '' '' @ [CHR 0xC3, CHR 0xA1] @ ''n kh'' @ [CHR 0xC3, CHR 0xB4] @ ''ng h'' @
                [CHR 0xE1, CHR 0xBB, CHR 0xA3] @ ''p l'' @ [CHR 0xE1, CHR 0xBB, CHR 0x87] @
                '' ho'' @ [CHR 0xE1, CHR 0xBA, CHR 0xB7] @ ''c b'' @ [CHR 0xE1, CHR 0xBB, CHR 0x8B] @
                '' h'' @ [CHR 0xE1, CHR 0xBB, CHR 0x8F] @ ''ng.'')\<rparr>,
       activeTab := create\<rparr>"

definition onProjectImport :: "file_text option \<Rightarrow> AppComponent \<Rightarrow> AppComponent" where
  "onProjectImport chosen c =
     (case chosen of
        None \<Rightarrow> c
      | Some t \<Rightarrow>
          (case JSON_parse t of
             SyntaxError \<Rightarrow> import_failed c
           | ParsedNull \<Rightarrow> import_failed c
           | ParsedProject project \<Rightarrow>
               c\<lparr>s_context := nullish (p_context project) [],
                 s_objective := nullish (p_objective project) [],
                 s_role := nullish (p_role project) [],
                 s_expectations := nullish (p_expectations project) [],
                 s_systemInstruction := nullish (p_systemInstruction project) [],
                 s_promptBody := nullish (p_promptBody project) [],
                 s_mediaInstruction := nullish (p_mediaInstruction project) [],
                 s_aiPlatform := nullish (p_aiPlatform project) ''Gemini'',
                 s_outputType := nullish (p_outputType project) ''Image'',
                 s_uploadedFile := p_uploadedFile project,
                 s_previewLanguage := nullish (p_previewLanguage project) ''Vietnamese'',
                 s_masterLanguages := nullish (p_masterLanguages project) defaultMasterLanguages,
                 s_temperature := nullish (p_temperature project) (Finite ''0.7''),
                 s_topP := nullish (p_topP project) (Finite ''0.95''),
                 s_aspectRatio := nullish (p_aspectRatio project) ''1:1'',
                 generationState := nullish (p_generationState project) defaultGenerationState,
                 activeTab := create\<rparr>))"

section \<open>Sample inputs\<close>

definition sample_request :: "string \<Rightarrow> inline_file option \<Rightarrow> PromptGenerationRequest" where
  "sample_request ot fl =
     \<lparr>context_in = ''launch'', objective = ''announce'', role = ''writer'',
      expectations = ''short'', systemInstruction = ''marketing'', promptBody = ''write'',
      mediaInstruction = [], aiPlatform = ''Gemini'', outputType = ot, file_in = fl,
      previewLanguage = ''Vietnamese'', masterPromptLanguages = [''English'', ''Vietnamese''],
      temperature = Finite ''0.7'', topP = Finite ''0.95'', aspectRatio = ''1:1''\<rparr>"

definition sample_analysis :: js where
  "sample_analysis =
     Obj [(''score'', Num (Finite ''80'')),
          (''analysis'', Obj [(''context'', Str ''ok''), (''objective'', Str ''ok''),
                              (''role'', Str ''weak''), (''expectations'', Str ''missing'')]),
          (''suggestions'', Str ''add a role'')]"

definition sample_provider ::
  "parsed promise \<Rightarrow> operation \<Rightarrow> (nat \<Rightarrow> operation promise) \<Rightarrow> provider" where
  "sample_provider prompts operation0 status =
     \<lparr>promptGeneration = prompts,
      imageGeneration = Resolves (Some [Some (Some ''aGk='')]),
      videoSubmission = Resolves operation0,
      videoStatus = status,
      assetFetch = (\<lambda>url. Resolves \<lparr>blob_type = ''video/mp4'', blob_bytes = ''hi''\<rparr>),
      textPreview = Resolves (Some ''xin chao''),
      promptAnalysis = Resolves (Parsed sample_analysis)\<rparr>"

definition two_prompts :: "js list" where
  "two_prompts = [entry ''Vietnamese'' ''V'', entry ''English'' ''X'']"

definition pending :: operation where
  "pending = \<lparr>op_done = False, op_uri = None\<rparr>"

definition finished :: operation where
  "finished = \<lparr>op_done = True, op_uri = Some ''https://v/1?alt=media''\<rparr>"

definition sample_request_of :: "string option \<Rightarrow> payload \<Rightarrow> Request" where
  "sample_request_of t p = \<lparr>json = Resolves \<lparr>btype = t, payload = p\<rparr>\<rparr>"

text \<open>
  A component after editing, a document written before most properties existed, and
  the same component with a temperature and a topP that \<^verbatim>\<open>JSON.stringify\<close> does not keep.
\<close>

definition older_snapshot :: PromptProject where
  "older_snapshot =
     \<lparr>p_context = Some ''launch'', p_objective = Some ''announce'', p_role = None,
      p_expectations = None, p_systemInstruction = None, p_promptBody = None,
      p_mediaInstruction = None, p_aiPlatform = None, p_outputType = None,
      p_uploadedFile = None, p_previewLanguage = None, p_masterLanguages = None,
      p_temperature = None, p_topP = None, p_aspectRatio = None, p_generationState = None\<rparr>"

definition edited :: AppComponent where
  "edited =
     initial\<lparr>activeTab := analyze, s_context := ''old'', s_role := ''critic'',
       s_aiPlatform := ''Claude'', s_outputType := ''Email'',
       s_uploadedFile := Some \<lparr>uf_data = ''data:text/plain;base64,aGk='', uf_mimeType = ''text/plain'',
                                uf_name = ''a.txt''\<rparr>,
       s_previewLanguage := ''French'', s_masterLanguages := [(''French'', True)],
       s_temperature := Finite ''0.2'', s_topP := Finite ''0.5'', s_aspectRatio := ''16:9'',
       generationState :=
         \<lparr>gs_masterPrompts =
            [\<lparr>language = ''Vietnamese'', prompt = ''V''\<rparr>, \<lparr>language = ''English'', prompt = ''X''\<rparr>],
          gs_preview = \<lparr>ptype = Some TextKind, content = Some ''xin chao''\<rparr>,
          gs_isLoading = False, gs_error = None, gs_loadingMessage = []\<rparr>,
       promptToAnalyze := ''draft''\<rparr>"

definition overheated :: AppComponent where
  "overheated = edited\<lparr>s_temperature := PosInfinity, s_topP := NegativeZero\<rparr>"

section \<open>The polling loop\<close>

lemma pollVideo_done: "op_done operation \<Longrightarrow> pollVideo i status k operation tr = Some (tr, Inr operation)"
  by (subst pollVideo.simps) simp

lemma pollVideo_step:
  "\<not> op_done operation \<Longrightarrow> status k = Resolves operation' \<Longrightarrow>
   pollVideo i status k operation tr =
     pollVideo i status (Suc k) operation' (tr @ [Sleep i, GetVideosOperation operation])"
  by (subst pollVideo.simps) simp

lemma pollVideo_reject:
  "\<not> op_done operation \<Longrightarrow> status k = Rejects e \<Longrightarrow>
   pollVideo i status k operation tr = Some (tr @ [Sleep i, GetVideosOperation operation], Inl e)"
  by (subst pollVideo.simps) simp

lemma pollVideo_run:
  "\<not> op_done operation \<Longrightarrow>
   (\<forall>j<n. status (k + j) = Resolves (r j) \<and> \<not> op_done (r j)) \<Longrightarrow>
   status (k + n) = Resolves (r n) \<Longrightarrow> op_done (r n) \<Longrightarrow>
   pollVideo i status k operation tr =
     Some (tr @ poll_events i (operation # map r [0..<n]), Inr (r n))"
proof (induction n arbitrary: k operation tr r)
  case 0
  then show ?case
    by (simp add: pollVideo_step pollVideo_done poll_events_def)
next
  case (Suc n)
  have s0: "status k = Resolves (r 0)" and nd0: "\<not> op_done (r 0)"
    using Suc.prems(2) by force+
  have rest: "\<forall>j<n. status (Suc k + j) = Resolves ((r \<circ> Suc) j) \<and> \<not> op_done ((r \<circ> Suc) j)"
    using Suc.prems(2) by force
  have last: "status (Suc k + n) = Resolves ((r \<circ> Suc) n)" "op_done ((r \<circ> Suc) n)"
    using Suc.prems(3,4) by simp_all
  have "pollVideo i status k operation tr =
          pollVideo i status (Suc k) (r 0) (tr @ [Sleep i, GetVideosOperation operation])"
    using Suc.prems(1) s0 by (rule pollVideo_step)
  also have "\<dots> = Some ((tr @ [Sleep i, GetVideosOperation operation]) @
                       poll_events i (r 0 # map (r \<circ> Suc) [0..<n]), Inr ((r \<circ> Suc) n))"
    using Suc.IH [OF nd0 rest last] .
  also have "map (r \<circ> Suc) [0..<n] = map r [Suc 0..<Suc n]"
    by (simp add: map_Suc_upt [symmetric] del: upt_Suc)
  finally show ?case
    by (simp add: poll_events_def upt_conv_Cons del: upt_Suc)
qed

lemma pollVideo_Some_cause:
  "pollVideo i status k operation tr = Some y \<Longrightarrow>
   op_done operation \<or> (\<exists>j\<ge>k. \<forall>operation'. status j = Resolves operation' \<longrightarrow> op_done operation')"
proof (induction i status k operation tr y rule: pollVideo.raw_induct [rotated 1, consumes 1, case_names step])
  case (step pollVideo' i status k operation tr y)
  show ?case
  proof (cases "op_done operation")
    case True
    then show ?thesis by simp
  next
    case False
    show ?thesis
    proof (cases "status k")
      case (Rejects e)
      then have "\<forall>operation'. status k = Resolves operation' \<longrightarrow> op_done operation'" by simp
      then show ?thesis by blast
    next
      case (Resolves operation')
      with False step(2) have "pollVideo' i status (Suc k) operation' (tr @ [Sleep i, GetVideosOperation operation]) = Some y"
        by simp
      from step(1) [OF this] show ?thesis
      proof
        assume "op_done operation'"
        with Resolves have "\<forall>operation''. status k = Resolves operation'' \<longrightarrow> op_done operation''" by simp
        then show ?thesis by blast
      next
        assume "\<exists>j\<ge>Suc k. \<forall>operation'. status j = Resolves operation' \<longrightarrow> op_done operation'"
        then show ?thesis using Suc_leD by blast
      qed
    qed
  qed
qed

lemma pollVideo_returns:
  "\<forall>operation'. status (k + n) = Resolves operation' \<longrightarrow> op_done operation' \<Longrightarrow>
   \<exists>y. pollVideo i status k operation tr = Some y"
proof (induction n arbitrary: k operation tr)
  case 0
  show ?case
  proof (cases "op_done operation")
    case True
    then show ?thesis by (simp add: pollVideo_done)
  next
    case False
    show ?thesis
    proof (cases "status k")
      case (Rejects e)
      with False show ?thesis by (simp add: pollVideo_reject)
    next
      case (Resolves operation')
      with 0 have "op_done operation'" by simp
      with False Resolves show ?thesis by (simp add: pollVideo_step pollVideo_done)
    qed
  qed
next
  case (Suc n)
  show ?case
  proof (cases "op_done operation")
    case True
    then show ?thesis by (simp add: pollVideo_done)
  next
    case False
    show ?thesis
    proof (cases "status k")
      case (Rejects e)
      with False show ?thesis by (simp add: pollVideo_reject)
    next
      case (Resolves operation')
      from Suc.prems have "\<forall>operation'. status (Suc k + n) = Resolves operation' \<longrightarrow> op_done operation'"
        by simp
      from Suc.IH [OF this] False Resolves show ?thesis by (simp add: pollVideo_step)
    qed
  qed
qed

lemma pollVideo_None_iff:
  "pollVideo i status k operation tr = None \<longleftrightarrow>
   \<not> op_done operation \<and> (\<forall>j\<ge>k. \<exists>operation'. status j = Resolves operation' \<and> \<not> op_done operation')"
proof
  assume n: "pollVideo i status k operation tr = None"
  have "\<not> op_done operation" using n by (auto simp: pollVideo_done)
  moreover have "\<exists>operation'. status j = Resolves operation' \<and> \<not> op_done operation'" if "k \<le> j" for j
  proof (rule ccontr)
    assume "\<not> ?thesis"
    then have "\<forall>operation'. status (k + (j - k)) = Resolves operation' \<longrightarrow> op_done operation'"
      using that by simp
    then have "\<exists>y. pollVideo i status k operation tr = Some y" by (rule pollVideo_returns)
    with n show False by simp
  qed
  ultimately show "\<not> op_done operation \<and> (\<forall>j\<ge>k. \<exists>operation'. status j = Resolves operation' \<and> \<not> op_done operation')"
    by blast
next
  assume a: "\<not> op_done operation \<and> (\<forall>j\<ge>k. \<exists>operation'. status j = Resolves operation' \<and> \<not> op_done operation')"
  show "pollVideo i status k operation tr = None"
  proof (cases "pollVideo i status k operation tr")
    case None
    then show ?thesis .
  next
    case (Some y)
    from pollVideo_Some_cause [OF this] a show ?thesis by fastforce
  qed
qed

section \<open>The structured result\<close>

lemma array_find_split:
  "(\<forall>p\<in>set pre. f p = Inr False) \<Longrightarrow> f e = Inr True \<Longrightarrow> array_find f (pre @ e # post) = Inr e"
  by (induction pre) simp_all

lemma array_find_none: "(\<forall>p\<in>set xs. f p = Inr False) \<Longrightarrow> array_find f xs = Inr Undefined"
  by (induction xs) simp_all

lemma array_find_throws:
  "(\<forall>p\<in>set pre. f p = Inr False) \<Longrightarrow> f e = Inl err \<Longrightarrow> array_find f (pre @ e # post) = Inl err"
  by (induction pre) simp_all

lemma lower_letters:
  "(case map_of (zip ''ABCDEFGHIJKLMNOPQRSTUVWXYZ'' ''abcdefghijklmnopqrstuvwxyz'') c of
      None \<Rightarrow> c | Some x \<Rightarrow> x) = CHR ''e'' \<longleftrightarrow> c = CHR ''e'' \<or> c = CHR ''E''"
  "(case map_of (zip ''ABCDEFGHIJKLMNOPQRSTUVWXYZ'' ''abcdefghijklmnopqrstuvwxyz'') c of
      None \<Rightarrow> c | Some x \<Rightarrow> x) = CHR ''n'' \<longleftrightarrow> c = CHR ''n'' \<or> c = CHR ''N''"
  "(case map_of (zip ''ABCDEFGHIJKLMNOPQRSTUVWXYZ'' ''abcdefghijklmnopqrstuvwxyz'') c of
      None \<Rightarrow> c | Some x \<Rightarrow> x) = CHR ''g'' \<longleftrightarrow> c = CHR ''g'' \<or> c = CHR ''G''"
  "(case map_of (zip ''ABCDEFGHIJKLMNOPQRSTUVWXYZ'' ''abcdefghijklmnopqrstuvwxyz'') c of
      None \<Rightarrow> c | Some x \<Rightarrow> x) = CHR ''l'' \<longleftrightarrow> c = CHR ''l'' \<or> c = CHR ''L''"
  "(case map_of (zip ''ABCDEFGHIJKLMNOPQRSTUVWXYZ'' ''abcdefghijklmnopqrstuvwxyz'') c of
      None \<Rightarrow> c | Some x \<Rightarrow> x) = CHR ''i'' \<longleftrightarrow> c = CHR ''i'' \<or> c = CHR ''I''"
  "(case map_of (zip ''ABCDEFGHIJKLMNOPQRSTUVWXYZ'' ''abcdefghijklmnopqrstuvwxyz'') c of
      None \<Rightarrow> c | Some x \<Rightarrow> x) = CHR ''s'' \<longleftrightarrow> c = CHR ''s'' \<or> c = CHR ''S''"
  "(case map_of (zip ''ABCDEFGHIJKLMNOPQRSTUVWXYZ'' ''abcdefghijklmnopqrstuvwxyz'') c of
      None \<Rightarrow> c | Some x \<Rightarrow> x) = CHR ''h'' \<longleftrightarrow> c = CHR ''h'' \<or> c = CHR ''H''"
  by (simp_all split: if_splits)

lemma toLowerCase_english_D:
  assumes "toLowerCase s = ''english''"
  shows "\<exists>c1 c2 c3 c4 c5 c6 c7. s = [c1, c2, c3, c4, c5, c6, c7] \<and>
           (c1 = CHR ''e'' \<or> c1 = CHR ''E'') \<and> (c2 = CHR ''n'' \<or> c2 = CHR ''N'') \<and>
           (c3 = CHR ''g'' \<or> c3 = CHR ''G'') \<and> (c4 = CHR ''l'' \<or> c4 = CHR ''L'') \<and>
           (c5 = CHR ''i'' \<or> c5 = CHR ''I'') \<and> (c6 = CHR ''s'' \<or> c6 = CHR ''S'') \<and>
           (c7 = CHR ''h'' \<or> c7 = CHR ''H'')"
  using assms unfolding toLowerCase_def
  by (clarsimp simp only: map_eq_Cons_conv map_is_Nil_conv lower_letters) simp

lemma toLowerCase_english_I:
  assumes "s = [c1, c2, c3, c4, c5, c6, c7]"
      and "c1 = CHR ''e'' \<or> c1 = CHR ''E''" "c2 = CHR ''n'' \<or> c2 = CHR ''N''"
          "c3 = CHR ''g'' \<or> c3 = CHR ''G''" "c4 = CHR ''l'' \<or> c4 = CHR ''L''"
          "c5 = CHR ''i'' \<or> c5 = CHR ''I''" "c6 = CHR ''s'' \<or> c6 = CHR ''S''"
          "c7 = CHR ''h'' \<or> c7 = CHR ''H''"
  shows "toLowerCase s = ''english''"
  unfolding toLowerCase_def assms(1) list.map list.inject lower_letters
  using assms(2-) by simp

lemma isEnglish_Inr:
  "isEnglish p = Inr b \<longleftrightarrow> (\<exists>s. property p ''language'' = Str s \<and> b = (toLowerCase s = ''english''))"
proof (cases p)
  case (Obj ps)
  then show ?thesis
    by (cases "property (Obj ps) ''language''") (auto simp: isEnglish_def getProperty_def)
qed (auto simp: isEnglish_def getProperty_def property_def)

lemma isEnglish_object: "isEnglish p = Inr b \<Longrightarrow> getProperty p k = Inr (property p k)"
  by (cases p) (auto simp: isEnglish_Inr getProperty_def property_def)

lemma isEnglish_iff:
  "isEnglish q = Inr True \<longleftrightarrow>
   (\<exists>c1 c2 c3 c4 c5 c6 c7. property q ''language'' = Str [c1, c2, c3, c4, c5, c6, c7] \<and>
               (c1 = CHR ''e'' \<or> c1 = CHR ''E'') \<and> (c2 = CHR ''n'' \<or> c2 = CHR ''N'') \<and>
               (c3 = CHR ''g'' \<or> c3 = CHR ''G'') \<and> (c4 = CHR ''l'' \<or> c4 = CHR ''L'') \<and>
               (c5 = CHR ''i'' \<or> c5 = CHR ''I'') \<and> (c6 = CHR ''s'' \<or> c6 = CHR ''S'') \<and>
               (c7 = CHR ''h'' \<or> c7 = CHR ''H''))"
proof
  assume "isEnglish q = Inr True"
  then obtain s where s: "property q ''language'' = Str s" "toLowerCase s = ''english''"
    by (auto simp: isEnglish_Inr)
  from toLowerCase_english_D [OF s(2)] s(1)
  show "(\<exists>c1 c2 c3 c4 c5 c6 c7. property q ''language'' = Str [c1, c2, c3, c4, c5, c6, c7] \<and>
               (c1 = CHR ''e'' \<or> c1 = CHR ''E'') \<and> (c2 = CHR ''n'' \<or> c2 = CHR ''N'') \<and>
               (c3 = CHR ''g'' \<or> c3 = CHR ''G'') \<and> (c4 = CHR ''l'' \<or> c4 = CHR ''L'') \<and>
               (c5 = CHR ''i'' \<or> c5 = CHR ''I'') \<and> (c6 = CHR ''s'' \<or> c6 = CHR ''S'') \<and>
               (c7 = CHR ''h'' \<or> c7 = CHR ''H''))"
    by auto
next
  assume "(\<exists>c1 c2 c3 c4 c5 c6 c7. property q ''language'' = Str [c1, c2, c3, c4, c5, c6, c7] \<and>
               (c1 = CHR ''e'' \<or> c1 = CHR ''E'') \<and> (c2 = CHR ''n'' \<or> c2 = CHR ''N'') \<and>
               (c3 = CHR ''g'' \<or> c3 = CHR ''G'') \<and> (c4 = CHR ''l'' \<or> c4 = CHR ''L'') \<and>
               (c5 = CHR ''i'' \<or> c5 = CHR ''I'') \<and> (c6 = CHR ''s'' \<or> c6 = CHR ''S'') \<and>
               (c7 = CHR ''h'' \<or> c7 = CHR ''H''))"
  then obtain c1 c2 c3 c4 c5 c6 c7
    where l: "property q ''language'' = Str [c1, c2, c3, c4, c5, c6, c7]"
      and c: "c1 = CHR ''e'' \<or> c1 = CHR ''E''" "c2 = CHR ''n'' \<or> c2 = CHR ''N''"
          "c3 = CHR ''g'' \<or> c3 = CHR ''G''" "c4 = CHR ''l'' \<or> c4 = CHR ''L''"
          "c5 = CHR ''i'' \<or> c5 = CHR ''I''" "c6 = CHR ''s'' \<or> c6 = CHR ''S''"
          "c7 = CHR ''h'' \<or> c7 = CHR ''H''"
    by blast
  have "toLowerCase [c1, c2, c3, c4, c5, c6, c7] = ''english''"
    using refl c by (rule toLowerCase_english_I)
  with l show "isEnglish q = Inr True" by (simp add: isEnglish_Inr)
qed

lemma isEnglish_Inl_iff: "(\<exists>x. isEnglish q = Inl x) \<longleftrightarrow> (\<forall>l. property q ''language'' \<noteq> Str l)"
proof -
  have "(\<exists>x. isEnglish q = Inl x) \<longleftrightarrow> \<not> (\<exists>b. isEnglish q = Inr b)"
    by (cases "isEnglish q") simp_all
  also have "\<dots> \<longleftrightarrow> (\<forall>l. property q ''language'' \<noteq> Str l)"
    by (simp add: isEnglish_Inr)
  finally show ?thesis .
qed

lemma basePrompt_found:
  assumes "array_find isEnglish entries = Inr e" and "isEnglish e = Inr True"
      and "entries = p0 # rest" and "isEnglish p0 = Inr b0"
  shows "basePromptForPreview (Arr entries) =
           Inr (if truthy (property e ''prompt'') then property e ''prompt''
                else property (hd entries) ''prompt'')"
proof -
  have e: "getProperty e ''prompt'' = Inr (property e ''prompt'')"
    using assms(2) by (rule isEnglish_object)
  have p0: "getProperty p0 ''prompt'' = Inr (property p0 ''prompt'')"
    using assms(4) by (rule isEnglish_object)
  have c: "(case e of Undefined \<Rightarrow> Inr Undefined | Null \<Rightarrow> Inr Undefined
            | _ \<Rightarrow> getProperty e ''prompt'') = Inr (property e ''prompt'')"
    using e by (cases e) (simp_all add: getProperty_def)
  show ?thesis
    by (simp only: basePromptForPreview_def js.case assms(1) sum.case c)
       (simp add: assms(3) p0)
qed

lemma basePrompt_english:
  assumes "entries = pre @ e # post" and "\<forall>p\<in>set pre. isEnglish p = Inr False"
      and "isEnglish e = Inr True"
  shows "basePromptForPreview (Arr entries) =
           Inr (if truthy (property e ''prompt'') then property e ''prompt''
                else property (hd entries) ''prompt'')"
proof -
  have f: "array_find isEnglish entries = Inr e"
    unfolding assms(1) using assms(2,3) by (rule array_find_split)
  have "entries \<noteq> []" using assms(1) by simp
  then obtain p0 rest where c: "entries = p0 # rest" by (cases entries) auto
  have "\<exists>b0. isEnglish p0 = Inr b0"
  proof (cases pre)
    case Nil
    with assms(1) c have "p0 = e" by simp
    with assms(3) show ?thesis by blast
  next
    case (Cons x xs)
    with assms(1) c have "p0 \<in> set pre" by simp
    with assms(2) show ?thesis by blast
  qed
  then obtain b0 where "isEnglish p0 = Inr b0" by blast
  with f assms(3) c show ?thesis by (rule basePrompt_found)
qed

lemma basePrompt_first:
  assumes "entries \<noteq> []" and "\<forall>p\<in>set entries. isEnglish p = Inr False"
  shows "basePromptForPreview (Arr entries) = Inr (property (hd entries) ''prompt'')"
proof -
  obtain p0 rest where c: "entries = p0 # rest" using assms(1) by (cases entries) auto
  with assms(2) have "isEnglish p0 = Inr False" by simp
  then have p0: "getProperty p0 ''prompt'' = Inr (property p0 ''prompt'')"
    by (rule isEnglish_object)
  have f: "array_find isEnglish entries = Inr Undefined"
    using assms(2) by (rule array_find_none)
  show ?thesis
    by (simp only: basePromptForPreview_def js.case f sum.case) (simp add: c p0)
qed

lemma basePrompt_throws:
  assumes "entries = pre @ e # post" and "\<forall>p\<in>set pre. isEnglish p = Inr False"
      and "isEnglish e = Inl err"
  shows "basePromptForPreview (Arr entries) = Inl err"
proof -
  have f: "array_find isEnglish entries = Inl err"
    unfolding assms(1) using assms(2,3) by (rule array_find_throws)
  show ?thesis by (simp only: basePromptForPreview_def js.case f sum.case)
qed

lemma array_find_Inl:
  "array_find f xs = Inl err \<longleftrightarrow>
   (\<exists>pre p post. xs = pre @ p # post \<and> (\<forall>q\<in>set pre. f q = Inr False) \<and> f p = Inl err)"
proof
  show "array_find f xs = Inl err \<Longrightarrow>
    \<exists>pre p post. xs = pre @ p # post \<and> (\<forall>q\<in>set pre. f q = Inr False) \<and> f p = Inl err"
  proof (induction xs)
    case Nil
    then show ?case by simp
  next
    case (Cons x xs)
    show ?case
    proof (cases "f x")
      case (Inl e')
      with Cons.prems have "x # xs = [] @ x # xs \<and> (\<forall>q\<in>set []. f q = Inr False) \<and> f x = Inl err"
        by simp
      then show ?thesis by blast
    next
      case (Inr b)
      with Cons.prems have nb: "\<not> b" and "array_find f xs = Inl err"
        by (auto split: if_splits)
      from Cons.IH [OF this(2)] obtain pre p post
        where "xs = pre @ p # post" "\<forall>q\<in>set pre. f q = Inr False" "f p = Inl err"
        by blast
      with Inr nb have "x # xs = (x # pre) @ p # post \<and> (\<forall>q\<in>set (x # pre). f q = Inr False) \<and>
          f p = Inl err"
        by simp
      then show ?thesis by blast
    qed
  qed
next
  assume "\<exists>pre p post. xs = pre @ p # post \<and> (\<forall>q\<in>set pre. f q = Inr False) \<and> f p = Inl err"
  then show "array_find f xs = Inl err" using array_find_throws by blast
qed

lemma array_find_Inr:
  "array_find f xs = Inr y \<Longrightarrow>
   (y = Undefined \<and> (\<forall>q\<in>set xs. f q = Inr False)) \<or>
   (\<exists>pre post. xs = pre @ y # post \<and> (\<forall>q\<in>set pre. f q = Inr False) \<and> f y = Inr True)"
proof (induction xs)
  case Nil
  then show ?case by simp
next
  case (Cons x xs)
  show ?case
  proof (cases "f x")
    case (Inl e')
    with Cons.prems show ?thesis by simp
  next
    case (Inr b)
    show ?thesis
    proof (cases b)
      case True
      with Inr Cons.prems have "x # xs = [] @ y # xs \<and> (\<forall>q\<in>set []. f q = Inr False) \<and> f y = Inr True"
        by simp
      then show ?thesis by blast
    next
      case False
      with Inr Cons.prems have "array_find f xs = Inr y" by simp
      from Cons.IH [OF this] show ?thesis
      proof
        assume "y = Undefined \<and> (\<forall>q\<in>set xs. f q = Inr False)"
        with Inr False show ?thesis by simp
      next
        assume "\<exists>pre post. xs = pre @ y # post \<and> (\<forall>q\<in>set pre. f q = Inr False) \<and> f y = Inr True"
        then obtain pre post where "xs = pre @ y # post" "\<forall>q\<in>set pre. f q = Inr False"
            "f y = Inr True"
          by blast
        with Inr False have "x # xs = (x # pre) @ y # post \<and>
            (\<forall>q\<in>set (x # pre). f q = Inr False) \<and> f y = Inr True"
          by simp
        then show ?thesis by blast
      qed
    qed
  qed
qed



lemma masterPromptsOf_cases:
  "masterPromptsOf Null = Inl (ErrorObj (cannot_read ''null'' ''prompts''))"
  "result \<noteq> Undefined \<and> result \<noteq> Null \<longrightarrow>
     masterPromptsOf result =
       (if \<not> truthy (property result ''prompts'') \<or> length_is_0 (property result ''prompts'')
        then Inl (ErrorObj ''AI did not return any prompts.'')
        else Inr (property result ''prompts''))"
  by (cases result; simp add: masterPromptsOf_def getProperty_def)+

lemma masterPromptsOf_Inr:
  assumes "masterPromptsOf result = Inr masterPrompts"
  shows "property result ''prompts'' = masterPrompts" and "truthy masterPrompts"
    and "\<not> length_is_0 masterPrompts"
  using assms
  by (auto simp: masterPromptsOf_def getProperty_def split: sum.splits if_splits js.splits)

lemma basePrompt_array:
  assumes "basePromptForPreview masterPrompts = Inr b"
  shows "\<exists>entries. masterPrompts = Arr entries"
  using assms by (cases masterPrompts) (simp_all add: basePromptForPreview_def)

lemma prompts_array:
  assumes "masterPromptsOf result = Inr masterPrompts"
      and "basePromptForPreview masterPrompts = Inr b"
  shows "\<exists>entries. masterPrompts = Arr entries \<and> entries \<noteq> []"
proof -
  obtain entries where e: "masterPrompts = Arr entries"
    using basePrompt_array [OF assms(2)] by blast
  with masterPromptsOf_Inr(3) [OF assms(1)] have "entries \<noteq> []"
    by (simp add: length_is_0_def)
  with e show ?thesis by blast
qed


lemma property_entry [simp]:
  "property (entry l t) ''language'' = Str l" "property (entry l t) ''prompt'' = Str t"
  by (simp_all add: property_def entry_def)

lemma getProperty_entry [simp]: "getProperty (entry l t) k = Inr (property (entry l t) k)"
  by (simp add: getProperty_def entry_def)

lemma isEnglish_entry [simp]: "isEnglish (entry l t) = Inr (toLowerCase l = ''english'')"
  by (simp add: isEnglish_def)

lemma masterPromptsOf_schema:
  "entries \<noteq> [] \<Longrightarrow> masterPromptsOf (Obj [(''prompts'', Arr entries)]) = Inr (Arr entries)"
  by (simp add: masterPromptsOf_def getProperty_def property_def length_is_0_def)

lemma prompts_property:
  assumes "property res ''prompts'' = Arr entries" and "entries \<noteq> []"
  shows "masterPromptsOf res = Inr (Arr entries)"
proof -
  have "res \<noteq> Undefined \<and> res \<noteq> Null" using assms(1) by (auto simp: property_def)
  with masterPromptsOf_cases(2) [of res] assms show ?thesis by (simp add: length_is_0_def)
qed

lemma schema_base:
  assumes "entries \<noteq> []"
      and "\<forall>p\<in>set entries. \<exists>l t. property p ''language'' = Str l \<and> property p ''prompt'' = Str t"
  shows "\<exists>s. basePromptForPreview (Arr entries) = Inr (Str s)"
proof -
  have first: "\<exists>t. property (hd entries) ''prompt'' = Str t"
    using assms by (cases entries) auto
  show ?thesis
  proof (cases "array_find isEnglish entries")
    case (Inl err)
    then obtain pre p post where "entries = pre @ p # post" "isEnglish p = Inl err"
      using array_find_Inl [of isEnglish entries err] by blast
    with assms(2) isEnglish_Inl_iff [of p] show ?thesis by auto
  next
    case (Inr y)
    from array_find_Inr [OF this] show ?thesis
    proof
      assume "y = Undefined \<and> (\<forall>q\<in>set entries. isEnglish q = Inr False)"
      with basePrompt_first [OF assms(1)] first show ?thesis by auto
    next
      assume "\<exists>pre post. entries = pre @ y # post \<and> (\<forall>q\<in>set pre. isEnglish q = Inr False) \<and>
          isEnglish y = Inr True"
      then obtain pre post where e: "entries = pre @ y # post"
          "\<forall>q\<in>set pre. isEnglish q = Inr False" "isEnglish y = Inr True"
        by blast
      from e(1) assms(2) obtain t where t: "property y ''prompt'' = Str t" by auto
      from first obtain t0 where t0: "property (hd entries) ''prompt'' = Str t0" by blast
      from basePrompt_english [OF e]
      have "basePromptForPreview (Arr entries) = Inr (Str (if t \<noteq> [] then t else t0))"
        by (simp add: t t0)
      then show ?thesis by blast
    qed
  qed
qed

lemma schema_facts:
  "\<forall>res entries.
     property res ''prompts'' = Arr entries \<and> entries \<noteq> [] \<and>
     (\<forall>p\<in>set entries. \<exists>l t. property p ''language'' = Str l \<and> property p ''prompt'' = Str t) \<longrightarrow>
     (\<exists>s. masterPromptsOf res = Inr (Arr entries) \<and>
          basePromptForPreview (Arr entries) = Inr (Str s) \<and> ToString (Str s) = Inr s)"
proof (intro allI impI, elim conjE)
  fix res entries
  assume a: "property res ''prompts'' = Arr entries" "entries \<noteq> []"
    "\<forall>p\<in>set entries. \<exists>l t. property p ''language'' = Str l \<and> property p ''prompt'' = Str t"
  from schema_base [OF a(2,3)] obtain s where "basePromptForPreview (Arr entries) = Inr (Str s)"
    by blast
  with prompts_property [OF a(1,2)]
  have "masterPromptsOf res = Inr (Arr entries) \<and>
        basePromptForPreview (Arr entries) = Inr (Str s) \<and> ToString (Str s) = Inr s"
    by simp
  then show "\<exists>s. masterPromptsOf res = Inr (Arr entries) \<and>
        basePromptForPreview (Arr entries) = Inr (Str s) \<and> ToString (Str s) = Inr s"
    by blast
qed

lemma plain_stringify:
  "plain v \<Longrightarrow> JSON_stringify v = v"
  "plain_elements xs \<Longrightarrow> stringify_elements xs = xs"
  "plain_properties ps \<Longrightarrow> stringify_properties ps = ps"
proof (induction v and xs and ps rule: plain_plain_elements_plain_properties.induct)
  case (4 n)
  then show ?case by (cases n) (simp_all add: JSON_stringify_number_def)
next
  case (9 x xs)
  then have "JSON_stringify x = x" "x \<noteq> Undefined" "stringify_elements xs = xs" by auto
  then show ?case by (cases x) simp_all
next
  case (11 k v ps)
  then have "JSON_stringify v = v" "v \<noteq> Undefined" "stringify_properties ps = ps" by auto
  then show ?case by (cases v) simp_all
qed simp_all

lemma plain_elements_iff: "plain_elements xs \<longleftrightarrow> (\<forall>x\<in>set xs. plain x)"
  by (induction xs) simp_all

lemma plain_entry [simp]: "plain (entry l t)"
  by (simp add: entry_def)

lemma stringify_entry [simp]:
  "(case JSON_stringify (entry l t) of Undefined \<Rightarrow> Null | w \<Rightarrow> w) = entry l t"
  by (simp add: entry_def)

lemma jsonResponse_simps:
  "jsonResponse (ErrorBody msg) st = (st, ErrorBody msg)"
  "jsonResponse (GenerateBody masterPrompts pv) st = (st, GenerateBody (JSON_stringify masterPrompts) pv)"
  "jsonResponse (AnalyzeBody r) st = (st, AnalyzeBody (JSON_stringify r))"
  by (simp_all add: jsonResponse_def JSON_stringify_body_def)

lemma stringify_two_prompts [simp]: "stringify_elements two_prompts = two_prompts"
  by (simp add: two_prompts_def)

lemma sample_prompts:
  "promptGeneration (sample_provider (Resolves (completion ps)) operation0 st) =
     Resolves (Parsed (Obj [(''prompts'', Arr ps)]))"
  "masterPromptsOf (Obj [(''prompts'', Arr two_prompts)]) = Inr (Arr two_prompts)"
  "basePromptForPreview (Arr two_prompts) = Inr (Str ''X'')"
  by (simp_all add: sample_provider_def completion_def two_prompts_def masterPromptsOf_schema
        basePromptForPreview_def isEnglish_def getProperty_def property_def entry_def
        toLowerCase_def)

section \<open>The video pathway\<close>

lemma video_not_image: "ot \<in> set VIDEO_OUTPUT_TYPES \<Longrightarrow> ot \<notin> set IMAGE_OUTPUT_TYPES"
  by (auto simp: VIDEO_OUTPUT_TYPES_def IMAGE_OUTPUT_TYPES_def)

lemma status_checks_append [simp]: "status_checks (a @ b) = status_checks a + status_checks b"
  by (simp add: status_checks_def)

lemma status_checks_poll_events [simp]: "status_checks (poll_events i ops) = length ops"
  by (induction ops) (simp_all add: status_checks_def poll_events_def)

lemma status_checks_simps [simp]:
  "status_checks [] = 0"
  "status_checks (GetVideosOperation operation # tr) = Suc (status_checks tr)"
  "status_checks (Sleep ms # tr) = status_checks tr"
  "status_checks (GenerateContentSchema vs # tr) = status_checks tr"
  "status_checks (GenerateVideos p im # tr) = status_checks tr"
  "status_checks (Fetch url # tr) = status_checks tr"
  by (simp_all add: status_checks_def)

lemma materializeVideo_trace:
  "\<exists>rest out. materializeVideo ai operation apiKey tr = (tr @ rest, out) \<and>
              (rest = [] \<or> (\<exists>url. rest = [Fetch url]))"
  by (auto simp: materializeVideo_def Let_def split: option.splits promise.splits)

lemma respond_trace: "\<exists>out. respond masterPrompts (tr, x) = (tr, out)"
  by (cases x) (simp_all add: respond_def)

lemma handleGenerate_video:
  assumes "promptGeneration ai = Resolves (Parsed result)"
      and "masterPromptsOf result = Inr masterPrompts"
      and "basePromptForPreview masterPrompts = Inr b"
      and "outputType d \<in> set VIDEO_OUTPUT_TYPES"
  shows "handleGenerate ai (GeneratePayload d) apiKey tr =
           map_option (respond masterPrompts)
             (videoPreview ai b (file_in d) apiKey (tr @ [schemaCall d]))"
  using assms video_not_image [OF assms(4)] by (simp add: handleGenerate_def Let_def)

lemma videoPreview_poll:
  assumes "videoSubmission ai = Resolves operation0"
  shows "videoPreview ai b fl apiKey tr =
           (case pollVideo 5000 (videoStatus ai) 0 operation0 (tr @ [GenerateVideos b (videoGenImage fl)]) of
              None \<Rightarrow> None
            | Some (tr'', Inl e) \<Rightarrow> Some (tr'', Inl e)
            | Some (tr'', Inr operation) \<Rightarrow> Some (materializeVideo ai operation apiKey tr''))"
  using assms by (simp add: videoPreview_def Let_def)

text \<open>
  A pending submission followed by \<open>N\<close> pending reports and a finished one: the loop
  makes \<open>N + 1\<close> rounds.
\<close>

lemma video_rounds:
  assumes "outputType d \<in> set VIDEO_OUTPUT_TYPES"
      and "promptGeneration ai = Resolves (Parsed result)"
      and "masterPromptsOf result = Inr masterPrompts"
      and b: "basePromptForPreview masterPrompts = Inr b"
      and "videoSubmission ai = Resolves operation0" and "\<not> op_done operation0"
      and "\<forall>j<N. videoStatus ai j = Resolves (r j) \<and> \<not> op_done (r j)"
      and "videoStatus ai N = Resolves (r N)" and "op_done (r N)"
  shows "\<exists>rest out.
           handleGenerate ai (GeneratePayload d) apiKey tr =
             Some (tr @ [schemaCall d, GenerateVideos b (videoGenImage (file_in d))] @
                   poll_events 5000 (operation0 # map r [0..<N]) @ rest, out) \<and>
           status_checks (poll_events 5000 (operation0 # map r [0..<N])) = N + 1 \<and>
           (rest = [] \<or> (\<exists>url. rest = [Fetch url]))"
proof -
  let ?tr1 = "(tr @ [schemaCall d]) @ [GenerateVideos b (videoGenImage (file_in d))]"
  let ?polls = "poll_events 5000 (operation0 # map r [0..<N])"
  have loop: "pollVideo 5000 (videoStatus ai) 0 operation0 ?tr1 = Some (?tr1 @ ?polls, Inr (r N))"
    using assms(6-9) by (intro pollVideo_run) simp_all
  obtain rest pv where m: "materializeVideo ai (r N) apiKey (?tr1 @ ?polls) = ((?tr1 @ ?polls) @ rest, pv)"
      and rest: "rest = [] \<or> (\<exists>url. rest = [Fetch url])"
    using materializeVideo_trace by blast
  obtain out where out: "respond masterPrompts ((?tr1 @ ?polls) @ rest, pv) = ((?tr1 @ ?polls) @ rest, out)"
    using respond_trace by blast
  have "handleGenerate ai (GeneratePayload d) apiKey tr = Some ((?tr1 @ ?polls) @ rest, out)"
    by (simp only: handleGenerate_video [OF assms(2,3) b assms(1)] videoPreview_poll [OF assms(5)]
          loop m out option.case prod.case sum.case option.map)
  then have "handleGenerate ai (GeneratePayload d) apiKey tr =
      Some (tr @ [schemaCall d, GenerateVideos b (videoGenImage (file_in d))] @ ?polls @ rest, out)"
    by simp
  moreover have "status_checks ?polls = N + 1" by simp
  ultimately show ?thesis using rest by blast
qed

text \<open>
  When the operation returned by the submission is done already, the loop body never
  runs: no sleep and no status check stand between the submission and the fetch.
\<close>

lemma video_done_at_submission:
  assumes "outputType d \<in> set VIDEO_OUTPUT_TYPES"
      and "promptGeneration ai = Resolves (Parsed result)"
      and "masterPromptsOf result = Inr masterPrompts"
      and b: "basePromptForPreview masterPrompts = Inr b"
      and "videoSubmission ai = Resolves operation0" and "op_done operation0"
  shows "\<exists>rest out.
           handleGenerate ai (GeneratePayload d) apiKey tr =
             Some (tr @ [schemaCall d, GenerateVideos b (videoGenImage (file_in d))] @ rest, out) \<and>
           (rest = [] \<or> (\<exists>url. rest = [Fetch url]))"
proof -
  let ?tr1 = "(tr @ [schemaCall d]) @ [GenerateVideos b (videoGenImage (file_in d))]"
  have loop: "pollVideo 5000 (videoStatus ai) 0 operation0 ?tr1 = Some (?tr1, Inr operation0)"
    using assms(6) by (rule pollVideo_done)
  obtain rest pv where m: "materializeVideo ai operation0 apiKey ?tr1 = (?tr1 @ rest, pv)"
      and rest: "rest = [] \<or> (\<exists>url. rest = [Fetch url])"
    using materializeVideo_trace by blast
  obtain out where out: "respond masterPrompts (?tr1 @ rest, pv) = (?tr1 @ rest, out)"
    using respond_trace by blast
  have "handleGenerate ai (GeneratePayload d) apiKey tr = Some (?tr1 @ rest, out)"
    by (simp only: handleGenerate_video [OF assms(2,3) b assms(1)] videoPreview_poll [OF assms(5)]
          loop m out option.case prod.case sum.case option.map)
  then show ?thesis using rest by auto
qed

text \<open>
  C1, amended. A video request whose submission returns an operation that is not yet
  done, and whose status checks report not done \<open>N\<close> times and then done: the trace is
  the completion, the submission, then \<open>N + 1\<close> rounds, each a sleep of 5000 ms
  followed by one status check, and after them at most the fetch of the asset. When the
  operation that the submission returns is done already, there is no round at all.
  The request is one whose completion gave prompts and a base prompt \<open>b\<close>, which every
  completion that follows the schema with a non-empty list does.
\<close>

theorem video_polled_until_done:
  assumes "outputType d \<in> set VIDEO_OUTPUT_TYPES"
      and "promptGeneration ai = Resolves (Parsed result)"
      and "masterPromptsOf result = Inr masterPrompts"
      and "basePromptForPreview masterPrompts = Inr b"
      and "videoSubmission ai = Resolves operation0"
  shows "(\<not> op_done operation0 \<and>
          (\<forall>j<N. videoStatus ai j = Resolves (r j) \<and> \<not> op_done (r j)) \<and>
          videoStatus ai N = Resolves (r N) \<and> op_done (r N) \<longrightarrow>
            (\<exists>rest out.
               handleGenerate ai (GeneratePayload d) apiKey tr =
                 Some (tr @ [schemaCall d, GenerateVideos b (videoGenImage (file_in d))] @
                       poll_events 5000 (operation0 # map r [0..<N]) @ rest, out) \<and>
               status_checks (poll_events 5000 (operation0 # map r [0..<N])) = N + 1 \<and>
               (rest = [] \<or> (\<exists>url. rest = [Fetch url])))) \<and>
         (op_done operation0 \<longrightarrow>
            (\<exists>rest out.
               handleGenerate ai (GeneratePayload d) apiKey tr =
                 Some (tr @ [schemaCall d, GenerateVideos b (videoGenImage (file_in d))] @ rest,
                       out) \<and>
               (rest = [] \<or> (\<exists>url. rest = [Fetch url])))) \<and>
         (\<forall>res entries.
            property res ''prompts'' = Arr entries \<and> entries \<noteq> [] \<and>
            (\<forall>p\<in>set entries. \<exists>l t. property p ''language'' = Str l \<and>
                                   property p ''prompt'' = Str t) \<longrightarrow>
            (\<exists>s. masterPromptsOf res = Inr (Arr entries) \<and>
                 basePromptForPreview (Arr entries) = Inr (Str s) \<and> ToString (Str s) = Inr s))"
proof (intro conjI impI allI)
  assume "\<not> op_done operation0 \<and>
          (\<forall>j<N. videoStatus ai j = Resolves (r j) \<and> \<not> op_done (r j)) \<and>
          videoStatus ai N = Resolves (r N) \<and> op_done (r N)"
  then have "\<not> op_done operation0"
      and "\<forall>j<N. videoStatus ai j = Resolves (r j) \<and> \<not> op_done (r j)"
      and "videoStatus ai N = Resolves (r N)" and "op_done (r N)"
    by simp_all
  with assms show "\<exists>rest out.
      handleGenerate ai (GeneratePayload d) apiKey tr =
        Some (tr @ [schemaCall d, GenerateVideos b (videoGenImage (file_in d))] @
              poll_events 5000 (operation0 # map r [0..<N]) @ rest, out) \<and>
      status_checks (poll_events 5000 (operation0 # map r [0..<N])) = N + 1 \<and>
      (rest = [] \<or> (\<exists>url. rest = [Fetch url]))"
    by (rule video_rounds)
next
  assume "op_done operation0"
  with assms show "\<exists>rest out.
      handleGenerate ai (GeneratePayload d) apiKey tr =
        Some (tr @ [schemaCall d, GenerateVideos b (videoGenImage (file_in d))] @ rest, out) \<and>
      (rest = [] \<or> (\<exists>url. rest = [Fetch url]))"
    by (rule video_done_at_submission)
next
  fix res :: js and entries :: "js list"
  assume "property res ''prompts'' = Arr entries \<and> entries \<noteq> [] \<and>
          (\<forall>p\<in>set entries. \<exists>l t. property p ''language'' = Str l \<and>
                                 property p ''prompt'' = Str t)"
  with schema_facts
  show "\<exists>s. masterPromptsOf res = Inr (Arr entries) \<and>
            basePromptForPreview (Arr entries) = Inr (Str s) \<and> ToString (Str s) = Inr s"
    by blast
qed

text \<open>
  C1, amended, at a job that is pending at submission and at two status checks.
\<close>

theorem video_polled_until_done_witness:
  "map_option (status_checks \<circ> fst)
     (handleGenerate
        (sample_provider (Resolves (completion two_prompts)) pending
           (\<lambda>k. Resolves (if k < 2 then pending else finished)))
        (GeneratePayload (sample_request ''Video'' None)) ''k'' []) = Some 3"
proof -
  let ?ai = "sample_provider (Resolves (completion two_prompts)) pending
               (\<lambda>k. Resolves (if k < 2 then pending else finished))"
  let ?r = "\<lambda>k::nat. if k < 2 then pending else finished"
  have a: "outputType (sample_request ''Video'' None) \<in> set VIDEO_OUTPUT_TYPES"
    by (simp add: sample_request_def VIDEO_OUTPUT_TYPES_def)
  have d: "videoSubmission ?ai = Resolves pending" by (simp add: sample_provider_def)
  have e: "\<not> op_done pending \<and>
           (\<forall>j<2. videoStatus ?ai j = Resolves (?r j) \<and> \<not> op_done (?r j)) \<and>
           videoStatus ?ai 2 = Resolves (?r 2) \<and> op_done (?r 2)"
    by (simp add: sample_provider_def pending_def finished_def)
  from video_polled_until_done
         [where r = ?r and N = 2 and apiKey = "''k''" and tr = "[]",
          OF a sample_prompts d, THEN conjunct1, THEN mp, OF e]
  show ?thesis by auto
qed

text \<open>
  C1 as stated fails for a job that is done when the submission returns: the first
  status report would say done (\<open>N = 0\<close>), yet the relay makes no status check
  at all before it fetches the asset, not \<open>N + 1 = 1\<close>.
\<close>

theorem video_polled_counterexample:
  "outputType (sample_request ''Video'' None) \<in> set VIDEO_OUTPUT_TYPES \<and>
   videoStatus (sample_provider (Resolves (completion two_prompts)) finished (\<lambda>k. Resolves finished)) 0 =
     Resolves finished \<and>
   op_done finished \<and>
   map_option (status_checks \<circ> fst)
     (handleGenerate
        (sample_provider (Resolves (completion two_prompts)) finished (\<lambda>k. Resolves finished))
        (GeneratePayload (sample_request ''Video'' None)) ''k'' []) = Some 0 \<and>
   map_option snd
     (handleGenerate
        (sample_provider (Resolves (completion two_prompts)) finished (\<lambda>k. Resolves finished))
        (GeneratePayload (sample_request ''Video'' None)) ''k'' []) =
     Some (Inr (200, GenerateBody (Arr two_prompts)
                  \<lparr>ptype = Some VideoKind, content = Some ''data:video/mp4;base64,aGk=''\<rparr>)) \<and>
   (0::nat) \<noteq> 0 + 1"
proof -
  let ?ai = "sample_provider (Resolves (completion two_prompts)) finished (\<lambda>k. Resolves finished)"
  have v: "outputType (sample_request ''Video'' None) \<in> set VIDEO_OUTPUT_TYPES"
    by (simp add: sample_request_def VIDEO_OUTPUT_TYPES_def)
  have s: "videoSubmission ?ai = Resolves finished" by (simp add: sample_provider_def)
  have d: "pollVideo 5000 st 0 finished t = Some (t, Inr finished)" for st t
    by (simp add: pollVideo_done finished_def)
  have e: "arrayBufferToBase64 ''hi'' = ''aGk=''"
    by (simp add: arrayBufferToBase64_def b64_def b64chars_def)
  have "handleGenerate ?ai (GeneratePayload (sample_request ''Video'' None)) ''k'' [] =
          Some ([schemaCall (sample_request ''Video'' None), GenerateVideos (Str ''X'') None,
                 Fetch ''https://v/1?alt=media&key=k''],
                Inr (200, GenerateBody (Arr two_prompts)
                  \<lparr>ptype = Some VideoKind, content = Some ''data:video/mp4;base64,aGk=''\<rparr>))"
    by (simp add: handleGenerate_video [OF sample_prompts v] videoPreview_poll [OF s] d
          materializeVideo_def respond_def jsonResponse_simps e videoGenImage_def)
       (simp add: finished_def sample_provider_def sample_request_def jsonResponse_simps e)
  then show ?thesis using v by (simp add: sample_provider_def finished_def)
qed

text \<open>
  C8. For a video request whose status checks all answer with a report \<open>r k\<close>: the
  handler never returns exactly when neither the submission nor any status check reports
  done, and when a report \<open>r n\<close> (or the submission) is done it returns after at most
  \<open>n + 1\<close> status checks. No number of pending reports makes the loop give up.
  The request is one whose completion gave prompts and a base prompt, which every
  completion that follows the schema with a non-empty list does.
\<close>

theorem video_loop_termination:
  assumes "outputType d \<in> set VIDEO_OUTPUT_TYPES"
      and "promptGeneration ai = Resolves (Parsed result)"
      and "masterPromptsOf result = Inr masterPrompts"
      and b: "basePromptForPreview masterPrompts = Inr b"
      and "videoSubmission ai = Resolves operation0"
      and "\<forall>k. videoStatus ai k = Resolves (r k)"
  shows "(handleGenerate ai (GeneratePayload d) apiKey tr = None \<longleftrightarrow>
            \<not> op_done operation0 \<and> (\<forall>k. \<not> op_done (r k))) \<and>
         (\<forall>n. op_done operation0 \<or> op_done (r n) \<longrightarrow>
            (\<exists>tr' out. handleGenerate ai (GeneratePayload d) apiKey tr = Some (tr', out) \<and>
                       status_checks tr' \<le> status_checks tr + n + 1)) \<and>
         (\<forall>res entries.
            property res ''prompts'' = Arr entries \<and> entries \<noteq> [] \<and>
            (\<forall>p\<in>set entries. \<exists>l t. property p ''language'' = Str l \<and>
                                   property p ''prompt'' = Str t) \<longrightarrow>
            (\<exists>s. masterPromptsOf res = Inr (Arr entries) \<and>
                 basePromptForPreview (Arr entries) = Inr (Str s) \<and> ToString (Str s) = Inr s))"
proof -
  let ?tr1 = "(tr @ [schemaCall d]) @ [GenerateVideos b (videoGenImage (file_in d))]"
  let ?loop = "pollVideo 5000 (videoStatus ai) 0 operation0 ?tr1"
  have h: "handleGenerate ai (GeneratePayload d) apiKey tr =
             map_option (respond masterPrompts)
               (case ?loop of
                  None \<Rightarrow> None
                | Some (tr'', Inl e) \<Rightarrow> Some (tr'', Inl e)
                | Some (tr'', Inr operation) \<Rightarrow> Some (materializeVideo ai operation apiKey tr''))"
    by (simp only: handleGenerate_video [OF assms(2,3) b assms(1)] videoPreview_poll [OF assms(5)])
  have "handleGenerate ai (GeneratePayload d) apiKey tr = None \<longleftrightarrow> ?loop = None"
    unfolding h by (auto split: option.splits sum.splits)
  also have "\<dots> \<longleftrightarrow> \<not> op_done operation0 \<and> (\<forall>k. \<not> op_done (r k))"
    using assms(6) by (simp add: pollVideo_None_iff)
  finally have never: "handleGenerate ai (GeneratePayload d) apiKey tr = None \<longleftrightarrow>
      \<not> op_done operation0 \<and> (\<forall>k. \<not> op_done (r k))" .
  have bounded: "\<exists>tr' out. handleGenerate ai (GeneratePayload d) apiKey tr = Some (tr', out) \<and>
                   status_checks tr' \<le> status_checks tr + n + 1"
    if dn: "op_done operation0 \<or> op_done (r n)" for n
  proof (cases "op_done operation0")
    case True
    from video_done_at_submission [OF assms(1-5) True, of apiKey tr]
    show ?thesis by auto
  next
    case False
    with dn have "op_done (r n)" by simp
    define m where "m = (LEAST j. op_done (r j))"
    have dm: "op_done (r m)" unfolding m_def using \<open>op_done (r n)\<close> by (rule LeastI)
    have mn: "m \<le> n" unfolding m_def using \<open>op_done (r n)\<close> by (rule Least_le)
    have before: "\<forall>j<m. videoStatus ai j = Resolves (r j) \<and> \<not> op_done (r j)"
      using assms(6) not_less_Least m_def by blast
    have loop: "?loop = Some (?tr1 @ poll_events 5000 (operation0 # map r [0..<m]), Inr (r m))"
      using False before assms(6) dm by (intro pollVideo_run) simp_all
    obtain rest pv where mat:
        "materializeVideo ai (r m) apiKey (?tr1 @ poll_events 5000 (operation0 # map r [0..<m])) =
           ((?tr1 @ poll_events 5000 (operation0 # map r [0..<m])) @ rest, pv)"
      and rest: "rest = [] \<or> (\<exists>url. rest = [Fetch url])"
      using materializeVideo_trace by blast
    obtain out where out:
        "respond masterPrompts ((?tr1 @ poll_events 5000 (operation0 # map r [0..<m])) @ rest, pv) =
           ((?tr1 @ poll_events 5000 (operation0 # map r [0..<m])) @ rest, out)"
      using respond_trace by blast
    have "handleGenerate ai (GeneratePayload d) apiKey tr =
            Some ((?tr1 @ poll_events 5000 (operation0 # map r [0..<m])) @ rest, out)"
      by (simp only: h loop mat out option.case prod.case sum.case option.map)
    moreover have "status_checks ((?tr1 @ poll_events 5000 (operation0 # map r [0..<m])) @ rest)
                     \<le> status_checks tr + n + 1"
      using rest mn by auto
    ultimately show ?thesis by blast
  qed
  have schema: "\<forall>res entries.
            property res ''prompts'' = Arr entries \<and> entries \<noteq> [] \<and>
            (\<forall>p\<in>set entries. \<exists>l t. property p ''language'' = Str l \<and>
                                   property p ''prompt'' = Str t) \<longrightarrow>
            (\<exists>s. masterPromptsOf res = Inr (Arr entries) \<and>
                 basePromptForPreview (Arr entries) = Inr (Str s) \<and> ToString (Str s) = Inr s)"
    by (rule schema_facts)
  from never bounded schema show ?thesis by blast
qed

text \<open>
  C8, at a job that stays pending forever: the handler never returns.
\<close>

theorem video_loop_termination_witness:
  "handleGenerate
     (sample_provider (Resolves (completion two_prompts)) pending (\<lambda>k. Resolves pending))
     (GeneratePayload (sample_request ''Video'' None)) ''k'' [] = None"
proof -
  let ?ai = "sample_provider (Resolves (completion two_prompts)) pending (\<lambda>k. Resolves pending)"
  have a: "outputType (sample_request ''Video'' None) \<in> set VIDEO_OUTPUT_TYPES"
    by (simp add: sample_request_def VIDEO_OUTPUT_TYPES_def)
  have d: "videoSubmission ?ai = Resolves pending" by (simp add: sample_provider_def)
  have e: "\<forall>k. videoStatus ?ai k = Resolves ((\<lambda>k. pending) k)"
    by (simp add: sample_provider_def)
  from video_loop_termination
         [where r = "\<lambda>k. pending" and apiKey = "''k''" and tr = "[]", OF a sample_prompts d e]
  show ?thesis by (simp add: pending_def)
qed

section \<open>The dispatcher\<close>

text \<open>
  C5. When the server credential is absent (or empty), \<^verbatim>\<open>onRequestPost\<close> returns the fixed
  configuration error with status 500, whatever the request and the provider are, and
  its trace is empty: the body has not been read and the provider has not been called.
\<close>

theorem missing_credential_configuration_error:
  "API_KEY env = None \<or> API_KEY env = Some [] \<Longrightarrow>
   onRequestPost env request ai =
     Some ([], jsonResponse (ErrorBody ''API_KEY is not configured on the server.'') 500)"
  by (auto simp: onRequestPost_def)

text \<open>
  C5, at a sample request without credential.
\<close>

theorem missing_credential_configuration_error_witness:
  "API_KEY \<lparr>API_KEY = None\<rparr> = None \<and>
   onRequestPost \<lparr>API_KEY = None\<rparr>
       (sample_request_of (Some ''generate'') (GeneratePayload (sample_request ''Video'' None)))
       (sample_provider (Resolves (completion two_prompts)) pending (\<lambda>k. Resolves pending)) =
     Some ([], (500, ErrorBody ''API_KEY is not configured on the server.''))"
  using missing_credential_configuration_error
          [of "\<lparr>API_KEY = None\<rparr>"
              "sample_request_of (Some ''generate'') (GeneratePayload (sample_request ''Video'' None))"
              "sample_provider (Resolves (completion two_prompts)) pending (\<lambda>k. Resolves pending)"]
  by (simp add: jsonResponse_simps)

text \<open>
  C6 as stated fails when the credential is absent: a request of type \<^verbatim>\<open>delete\<close> is
  answered with the configuration error, not with the invalid-request error.
\<close>

theorem unknown_type_counterexample:
  "btype \<lparr>btype = Some ''delete'', payload = AnalyzePayload []\<rparr> \<noteq> Some ''generate'' \<and>
   btype \<lparr>btype = Some ''delete'', payload = AnalyzePayload []\<rparr> \<noteq> Some ''analyze'' \<and>
   onRequestPost \<lparr>API_KEY = None\<rparr> (sample_request_of (Some ''delete'') (AnalyzePayload []))
       (sample_provider (Resolves (completion two_prompts)) pending (\<lambda>k. Resolves pending)) =
     Some ([], (500, ErrorBody ''API_KEY is not configured on the server.'')) \<and>
   (500, ErrorBody ''API_KEY is not configured on the server.'') \<noteq>
     jsonResponse (ErrorBody ''Invalid request type'') 400"
  by (simp add: onRequestPost_def jsonResponse_simps)

text \<open>
  C6, amended. For a request whose envelope type is neither \<^verbatim>\<open>generate\<close> nor
  \<^verbatim>\<open>analyze\<close>: with a credential present the relay answers with the invalid-request
  error (status 400), having only read the body; without it, with the configuration
  error; in both cases no provider call is made.
\<close>

theorem unknown_type_invalid_request:
  assumes "json request = Resolves b"
      and "btype b \<noteq> Some ''generate''" and "btype b \<noteq> Some ''analyze''"
  shows "(API_KEY env = Some apiKey \<and> apiKey \<noteq> [] \<longrightarrow>
            onRequestPost env request ai =
              Some ([RequestJson], jsonResponse (ErrorBody ''Invalid request type'') 400)) \<and>
         (API_KEY env = None \<or> API_KEY env = Some [] \<longrightarrow>
            onRequestPost env request ai =
              Some ([], jsonResponse (ErrorBody ''API_KEY is not configured on the server.'') 500)) \<and>
         (\<exists>tr r. onRequestPost env request ai = Some (tr, r) \<and> filter is_provider_call tr = [])"
proof -
  have d: "dispatch request ai k =
             Some ([RequestJson], Inr (jsonResponse (ErrorBody ''Invalid request type'') 400))" for k
    using assms by (simp add: dispatch_def)
  have configured: "API_KEY env = Some apiKey \<and> apiKey \<noteq> [] \<longrightarrow>
      onRequestPost env request ai =
        Some ([RequestJson], jsonResponse (ErrorBody ''Invalid request type'') 400)"
    by (simp add: onRequestPost_def d)
  have quiet: "\<exists>tr r. onRequestPost env request ai = Some (tr, r) \<and> filter is_provider_call tr = []"
  proof (cases "API_KEY env")
    case None
    then show ?thesis by (simp add: onRequestPost_def)
  next
    case (Some k)
    then show ?thesis by (cases "k = []") (simp_all add: onRequestPost_def d)
  qed
  have unconfigured: "API_KEY env = None \<or> API_KEY env = Some [] \<longrightarrow>
      onRequestPost env request ai =
        Some ([], jsonResponse (ErrorBody ''API_KEY is not configured on the server.'') 500)"
    by (auto simp: onRequestPost_def)
  from configured unconfigured quiet show ?thesis by (intro conjI)
qed

text \<open>
  C6, amended, at a request of type \<^verbatim>\<open>delete\<close> with a credential.
\<close>

theorem unknown_type_invalid_request_witness:
  "onRequestPost \<lparr>API_KEY = Some ''k''\<rparr> (sample_request_of (Some ''delete'') (AnalyzePayload []))
       (sample_provider (Resolves (completion two_prompts)) pending (\<lambda>k. Resolves pending)) =
     Some ([RequestJson], (400, ErrorBody ''Invalid request type''))"
  using unknown_type_invalid_request
          [of "sample_request_of (Some ''delete'') (AnalyzePayload [])"
              "\<lparr>btype = Some ''delete'', payload = AnalyzePayload []\<rparr>"
              "\<lparr>API_KEY = Some ''k''\<rparr>" "''k''"
              "sample_provider (Resolves (completion two_prompts)) pending (\<lambda>k. Resolves pending)"]
  by (simp add: sample_request_of_def jsonResponse_simps)

section \<open>The three branches\<close>

lemma respond_Inr:
  "respond masterPrompts r = (tr', Inr resp) \<Longrightarrow>
   \<exists>pv. r = (tr', Inr pv) \<and> resp = (200, GenerateBody (JSON_stringify masterPrompts) pv)"
  by (cases r) (auto simp: respond_def jsonResponse_simps split: sum.splits)

lemma imagePreview_kind:
  "imagePreview ai b a tr = (tr', Inr pv) \<Longrightarrow> ptype pv = Some ImageKind"
  by (auto simp: imagePreview_def Let_def split: promise.splits option.splits list.splits)

lemma materializeVideo_kind:
  "materializeVideo ai operation apiKey tr = (tr', Inr pv) \<Longrightarrow> ptype pv = Some VideoKind"
  by (auto simp: materializeVideo_def Let_def split: promise.splits option.splits if_splits)

lemma videoPreview_kind:
  "videoPreview ai b fl apiKey tr = Some (tr', Inr pv) \<Longrightarrow> ptype pv = Some VideoKind"
  by (auto simp: videoPreview_def Let_def dest: materializeVideo_kind
      split: promise.splits option.splits sum.splits)

lemma textPreviewOf_kind:
  "textPreviewOf ai parts d tr = (tr', Inr pv) \<Longrightarrow> ptype pv = Some TextKind"
  by (auto simp: textPreviewOf_def Let_def split: promise.splits sum.splits)

lemma handleGenerate_branches:
  assumes "promptGeneration ai = Resolves (Parsed result)"
      and "masterPromptsOf result = Inr masterPrompts"
      and "basePromptForPreview masterPrompts = Inr b"
  shows "handleGenerate ai (GeneratePayload d) apiKey tr =
           (case pathway (outputType d) of
              ImageKind \<Rightarrow>
                Some (respond masterPrompts (imagePreview ai b (aspectRatio d) (tr @ [schemaCall d])))
            | VideoKind \<Rightarrow>
                map_option (respond masterPrompts)
                  (videoPreview ai b (file_in d) apiKey (tr @ [schemaCall d]))
            | TextKind \<Rightarrow>
                Some (respond masterPrompts
                        (textPreviewOf ai (previewPromptParts b (file_in d)) d (tr @ [schemaCall d]))))"
  using assms by (simp add: handleGenerate_def Let_def pathway_def)

lemma handleGenerate_stage:
  "(\<exists>result masterPrompts b. promptGeneration ai = Resolves (Parsed result) \<and>
      masterPromptsOf result = Inr masterPrompts \<and> basePromptForPreview masterPrompts = Inr b) \<or>
   (\<exists>e. handleGenerate ai (GeneratePayload d) apiKey tr = Some (tr @ [schemaCall d], Inl e))"
proof (cases "promptGeneration ai")
  case (Rejects e)
  then show ?thesis by (simp add: handleGenerate_def Let_def)
next
  case (Resolves p)
  show ?thesis
  proof (cases p)
    case TextUndefined
    with Resolves show ?thesis by (simp add: handleGenerate_def Let_def)
  next
    case (SyntaxErr m)
    with Resolves show ?thesis by (simp add: handleGenerate_def Let_def)
  next
    case (Parsed result)
    show ?thesis
    proof (cases "masterPromptsOf result")
      case (Inl e)
      with Resolves Parsed show ?thesis by (simp add: handleGenerate_def Let_def)
    next
      case (Inr masterPrompts)
      show ?thesis
      proof (cases "basePromptForPreview masterPrompts")
        case (Inl e)
        with Resolves Parsed Inr show ?thesis by (simp add: handleGenerate_def Let_def)
      next
        case b: (Inr b)
        with Resolves Parsed Inr show ?thesis by blast
      qed
    qed
  qed
qed

lemma handleGenerate_Inr:
  assumes "handleGenerate ai (GeneratePayload d) apiKey tr = Some (tr', Inr resp)"
  shows "\<exists>result masterPrompts b. promptGeneration ai = Resolves (Parsed result) \<and>
           masterPromptsOf result = Inr masterPrompts \<and> basePromptForPreview masterPrompts = Inr b"
  using handleGenerate_stage [of ai d apiKey tr] assms by auto

lemma handleGenerate_success:
  assumes "handleGenerate ai (GeneratePayload d) apiKey tr = Some (tr', Inr resp)"
  shows "\<exists>result masterPrompts b pv. promptGeneration ai = Resolves (Parsed result) \<and>
           masterPromptsOf result = Inr masterPrompts \<and>
           basePromptForPreview masterPrompts = Inr b \<and>
           resp = (200, GenerateBody (JSON_stringify masterPrompts) pv) \<and>
           ptype pv = Some (pathway (outputType d))"
proof -
  obtain result masterPrompts b where p: "promptGeneration ai = Resolves (Parsed result)"
      "masterPromptsOf result = Inr masterPrompts" "basePromptForPreview masterPrompts = Inr b"
    using handleGenerate_Inr [OF assms] by blast
  note h = assms [unfolded handleGenerate_branches [OF p]]
  show ?thesis
  proof (cases "pathway (outputType d)")
    case TextKind
    with h have "respond masterPrompts
        (textPreviewOf ai (previewPromptParts b (file_in d)) d (tr @ [schemaCall d])) = (tr', Inr resp)"
      by simp
    from respond_Inr [OF this] TextKind p show ?thesis by (auto dest: textPreviewOf_kind)
  next
    case ImageKind
    with h have "respond masterPrompts (imagePreview ai b (aspectRatio d) (tr @ [schemaCall d])) =
        (tr', Inr resp)"
      by simp
    from respond_Inr [OF this] ImageKind p show ?thesis by (auto dest: imagePreview_kind)
  next
    case VideoKind
    with h obtain r where v: "videoPreview ai b (file_in d) apiKey (tr @ [schemaCall d]) = Some r"
        and "respond masterPrompts r = (tr', Inr resp)"
      by auto
    from respond_Inr [OF this(2)] v VideoKind p show ?thesis by (auto dest: videoPreview_kind)
  qed
qed

lemma sample_pathways:
  "pathway (outputType (sample_request ''Image'' fl)) = ImageKind"
  "pathway (outputType (sample_request ''Video'' fl)) = VideoKind"
  "pathway (outputType (sample_request ''Email'' fl)) = TextKind"
  by (simp_all add: sample_request_def pathway_def IMAGE_OUTPUT_TYPES_def VIDEO_OUTPUT_TYPES_def)

lemma sample_image_run:
  "handleGenerate (sample_provider (Resolves (completion two_prompts)) operation0 st)
     (GeneratePayload (sample_request ''Image'' fl)) apiKey [] =
   Some ([schemaCall (sample_request ''Image'' fl), GenerateImages (Str ''X'') ''1:1''],
         Inr (200, GenerateBody (Arr two_prompts)
                \<lparr>ptype = Some ImageKind, content = Some ''data:image/png;base64,aGk=''\<rparr>))"
  by (simp add: handleGenerate_branches [OF sample_prompts] sample_pathways
        imagePreview_def respond_def jsonResponse_simps)
     (simp add: sample_provider_def sample_request_def jsonResponse_simps)

lemma sample_text_run:
  "handleGenerate (sample_provider (Resolves (completion two_prompts)) operation0 st)
     (GeneratePayload (sample_request ''Email'' None)) apiKey [] =
   Some ([schemaCall (sample_request ''Email'' None),
          GenerateContentParts
            [TextPart (Str (''X'' @ [CHR 0x0A, CHR 0x0A] @
               ''--- IMPORTANT: Please provide your entire response in Vietnamese. ---''))]
            (Finite ''0.7'') (Finite ''0.95'')],
         Inr (200, GenerateBody (Arr two_prompts) \<lparr>ptype = Some TextKind, content = Some ''xin chao''\<rparr>))"
  by (simp add: handleGenerate_branches [OF sample_prompts] sample_pathways
        textPreviewOf_def respond_def jsonResponse_simps previewPromptParts_def
        finalPromptForTextPreview_def)
     (simp add: sample_provider_def sample_request_def jsonResponse_simps)

section \<open>The prompts of a response\<close>

lemma handleAnalyze_no_prompts:
  "handleAnalyze ai dat tr0 \<noteq> Some (tr, Inr (st, GenerateBody masterPrompts pv))"
  by (auto simp: handleAnalyze_def Let_def jsonResponse_simps split: promise.splits parsed.splits)

lemma onRequestPost_generate_body:
  assumes "onRequestPost env request ai = Some (tr, (st, GenerateBody masterPrompts pv))"
  shows "\<exists>d apiKey. handleGenerate ai (GeneratePayload d) apiKey [RequestJson] =
           Some (tr, Inr (st, GenerateBody masterPrompts pv))"
proof -
  from assms obtain apiKey where k: "API_KEY env = Some apiKey" "apiKey \<noteq> []"
    by (auto simp: onRequestPost_def Let_def jsonResponse_simps split: option.splits if_splits)
  with assms have d: "dispatch request ai apiKey = Some (tr, Inr (st, GenerateBody masterPrompts pv))"
    by (auto simp: onRequestPost_def Let_def jsonResponse_simps split: option.splits sum.splits)
  then obtain b where b: "json request = Resolves b"
    by (cases "json request") (auto simp: dispatch_def)
  from d b have g: "btype b = Some ''generate''"
    using handleAnalyze_no_prompts [of ai "payload b" "[RequestJson]" tr st masterPrompts pv]
    by (auto simp: dispatch_def jsonResponse_simps split: if_splits)
  with d b have h: "handleGenerate ai (payload b) apiKey [RequestJson] =
      Some (tr, Inr (st, GenerateBody masterPrompts pv))"
    by (simp add: dispatch_def)
  then obtain d' where "payload b = GeneratePayload d'"
    by (cases "payload b") (auto simp: handleGenerate_def)
  with h show ?thesis by auto
qed

text \<open>
  C3, amended. The prompts of a successful response are what \<^verbatim>\<open>JSON.stringify\<close> writes
  for the value of the property \<^verbatim>\<open>prompts\<close> of the structured completion, and that
  value is an array that is not empty. A value that is \<open>plain\<close> is written as it is, an
  array is plain when its entries are, and the entries that the schema describes are
  plain: for them the response holds the array itself, entry by entry. Nothing in the
  relay compares it with the requested languages or looks at the text of an entry.
\<close>

theorem master_prompts_passed_through:
  assumes "onRequestPost env request ai = Some (tr, (st, GenerateBody masterPrompts pv))"
  shows "(\<exists>result entries. promptGeneration ai = Resolves (Parsed result) \<and>
            property result ''prompts'' = Arr entries \<and> entries \<noteq> [] \<and>
            masterPrompts = JSON_stringify (Arr entries) \<and> st = 200) \<and>
         (\<forall>v. plain v \<longrightarrow> JSON_stringify v = v) \<and>
         (\<forall>entries. plain (Arr entries) \<longleftrightarrow> (\<forall>p\<in>set entries. plain p)) \<and>
         (\<forall>l t. plain (entry l t))"
proof -
  obtain d apiKey where "handleGenerate ai (GeneratePayload d) apiKey [RequestJson] =
      Some (tr, Inr (st, GenerateBody masterPrompts pv))"
    using onRequestPost_generate_body [OF assms] by blast
  from handleGenerate_success [OF this] obtain result m b
    where p: "promptGeneration ai = Resolves (Parsed result)"
      "masterPromptsOf result = Inr m" "basePromptForPreview m = Inr b"
      and st: "st = 200" and w: "masterPrompts = JSON_stringify m"
    by auto
  from prompts_array [OF p(2,3)] obtain entries where e: "m = Arr entries" "entries \<noteq> []"
    by blast
  from masterPromptsOf_Inr(1) [OF p(2)] e p(1) st w
  have "promptGeneration ai = Resolves (Parsed result) \<and>
            property result ''prompts'' = Arr entries \<and> entries \<noteq> [] \<and>
            masterPrompts = JSON_stringify (Arr entries) \<and> st = 200"
    by simp
  then have "\<exists>result entries. promptGeneration ai = Resolves (Parsed result) \<and>
            property result ''prompts'' = Arr entries \<and> entries \<noteq> [] \<and>
            masterPrompts = JSON_stringify (Arr entries) \<and> st = 200"
    by blast
  moreover have "\<forall>v. plain v \<longrightarrow> JSON_stringify v = v"
    by (simp add: plain_stringify)
  moreover have "\<forall>entries. plain (Arr entries) \<longleftrightarrow> (\<forall>p\<in>set entries. plain p)"
    by (simp add: plain_elements_iff)
  moreover have "\<forall>l t. plain (entry l t)"
    by simp
  ultimately show ?thesis by (intro conjI)
qed

lemma one_empty_prompt_run:
  "onRequestPost \<lparr>API_KEY = Some ''k''\<rparr>
     (sample_request_of (Some ''generate'') (GeneratePayload (sample_request ''Email'' None)))
     (sample_provider (Resolves (completion [entry ''English'' []])) pending
        (\<lambda>k. Resolves pending)) =
   Some ([RequestJson, schemaCall (sample_request ''Email'' None),
          GenerateContentParts
            [TextPart (Str ([CHR 0x0A, CHR 0x0A] @
               ''--- IMPORTANT: Please provide your entire response in Vietnamese. ---''))]
            (Finite ''0.7'') (Finite ''0.95'')],
         (200, GenerateBody (Arr [entry ''English'' []])
                 \<lparr>ptype = Some TextKind, content = Some ''xin chao''\<rparr>))"
proof -
  have m: "masterPromptsOf (Obj [(''prompts'', Arr [entry ''English'' []])]) =
             Inr (Arr [entry ''English'' []])"
    by (simp add: masterPromptsOf_schema)
  have b: "basePromptForPreview (Arr [entry ''English'' []]) = Inr (Str [])"
    by (simp add: basePromptForPreview_def isEnglish_def getProperty_def property_def entry_def
          toLowerCase_def)
  show ?thesis
    by (simp add: onRequestPost_def dispatch_def sample_request_of_def
          handleGenerate_branches [OF sample_prompts(1) m b] sample_pathways
          textPreviewOf_def respond_def jsonResponse_simps previewPromptParts_def
          finalPromptForTextPreview_def)
       (simp add: sample_provider_def sample_request_def jsonResponse_simps)
qed

text \<open>
  C3, amended, at a run whose completion returned one entry with empty text for two
  requested languages.
\<close>

theorem master_prompts_passed_through_witness:
  "\<exists>result entries.
     promptGeneration
       (sample_provider (Resolves (completion [entry ''English'' []])) pending
          (\<lambda>k. Resolves pending)) = Resolves (Parsed result) \<and>
     property result ''prompts'' = Arr entries \<and> entries \<noteq> [] \<and>
     Arr [entry ''English'' []] = JSON_stringify (Arr entries) \<and> (200::nat) = 200"
  using master_prompts_passed_through [OF one_empty_prompt_run] by (rule conjunct1)

text \<open>
  C3 as stated fails: two languages are requested, the completion returns a single
  entry whose text is empty, and the relay answers 200 with that single entry.
\<close>

theorem master_prompts_counterexample:
  "masterPromptLanguages (sample_request ''Email'' None) = [''English'', ''Vietnamese''] \<and>
   map_option snd
     (onRequestPost \<lparr>API_KEY = Some ''k''\<rparr>
        (sample_request_of (Some ''generate'') (GeneratePayload (sample_request ''Email'' None)))
        (sample_provider (Resolves (completion [entry ''English'' []])) pending
           (\<lambda>k. Resolves pending))) =
     Some (200, GenerateBody (Arr [entry ''English'' []])
                  \<lparr>ptype = Some TextKind, content = Some ''xin chao''\<rparr>) \<and>
   length [entry ''English'' []] \<noteq>
     length (masterPromptLanguages (sample_request ''Email'' None)) \<and>
   property (entry ''English'' []) ''prompt'' = Str []"
  by (simp add: one_empty_prompt_run) (simp add: sample_request_def)

section \<open>The base prompt\<close>

lemma pollVideo_trace_fst:
  "pollVideo i status k operation tr = Some y \<Longrightarrow> \<exists>ops. fst y = tr @ poll_events i ops"
proof (induction i status k operation tr y
    rule: pollVideo.raw_induct [rotated 1, consumes 1, case_names step])
  case (step pollVideo' i status k operation tr y)
  show ?case
  proof (cases "op_done operation")
    case True
    with step(2) have "fst y = tr @ poll_events i []" by (auto simp: poll_events_def)
    then show ?thesis by blast
  next
    case False
    show ?thesis
    proof (cases "status k")
      case (Rejects e)
      with False step(2) have "fst y = tr @ poll_events i [operation]"
        by (auto simp: poll_events_def)
      then show ?thesis by blast
    next
      case (Resolves operation')
      with False step(2) have "pollVideo' i status (Suc k) operation'
          (tr @ [Sleep i, GetVideosOperation operation]) = Some y"
        by simp
      from step(1) [OF this] obtain ops
        where "fst y = (tr @ [Sleep i, GetVideosOperation operation]) @ poll_events i ops"
        by blast
      then have "fst y = tr @ poll_events i (operation # ops)" by (simp add: poll_events_def)
      then show ?thesis by blast
    qed
  qed
qed

lemma pollVideo_trace:
  "pollVideo i status k operation tr = Some (tr', x) \<Longrightarrow> \<exists>ops. tr' = tr @ poll_events i ops"
  using pollVideo_trace_fst by fastforce

lemma videoPreview_trace:
  assumes "videoPreview ai b fl apiKey tr = Some (tr', out)"
  shows "\<exists>ops rest. tr' = tr @ GenerateVideos b (videoGenImage fl) # poll_events 5000 ops @ rest \<and>
           (rest = [] \<or> (\<exists>url. rest = [Fetch url]))"
proof (cases "videoSubmission ai")
  case (Rejects e)
  with assms have "tr' = tr @ GenerateVideos b (videoGenImage fl) # poll_events 5000 [] @ []"
    by (simp add: videoPreview_def Let_def poll_events_def)
  then show ?thesis by blast
next
  case (Resolves operation0)
  note v = assms [unfolded videoPreview_poll [OF Resolves]]
  then obtain tr'' x where l: "pollVideo 5000 (videoStatus ai) 0 operation0
      (tr @ [GenerateVideos b (videoGenImage fl)]) = Some (tr'', x)"
    by (auto split: option.splits)
  from pollVideo_trace [OF l] obtain ops
    where t: "tr'' = (tr @ [GenerateVideos b (videoGenImage fl)]) @ poll_events 5000 ops"
    by blast
  show ?thesis
  proof (cases x)
    case (Inl e)
    with v l t have "tr' = tr @ GenerateVideos b (videoGenImage fl) # poll_events 5000 ops @ []"
      by simp
    then show ?thesis by blast
  next
    case (Inr operation)
    obtain rest pv where m: "materializeVideo ai operation apiKey tr'' = (tr'' @ rest, pv)"
        and r: "rest = [] \<or> (\<exists>url. rest = [Fetch url])"
      using materializeVideo_trace by blast
    with v l t Inr have "tr' = tr @ GenerateVideos b (videoGenImage fl) # poll_events 5000 ops @ rest"
      by simp
    with r show ?thesis by blast
  qed
qed

lemma imagePreview_trace: "fst (imagePreview ai b a tr) = tr @ [GenerateImages b a]"
  by (auto simp: imagePreview_def Let_def split: promise.splits option.splits list.splits)

lemma textPreviewOf_trace:
  "fst (textPreviewOf ai parts d tr) =
     (case finalPromptForTextPreview parts (previewLanguage d) of
        Inl e \<Rightarrow> tr
      | Inr final \<Rightarrow> tr @ [GenerateContentParts final (temperature d) (topP d)])"
  by (auto simp: textPreviewOf_def Let_def split: promise.splits sum.splits)

lemma respond_fst: "fst (respond masterPrompts r) = fst r"
  by (cases r) (auto simp: respond_def split: sum.splits)

lemma preview_call_carries_base:
  assumes "promptGeneration ai = Resolves (Parsed result)"
      and "masterPromptsOf result = Inr masterPrompts"
      and "basePromptForPreview masterPrompts = Inr b"
      and "previewCall b d = Some c"
      and "handleGenerate ai (GeneratePayload d) apiKey tr = Some (tr', out)"
  shows "\<exists>rest. tr' = tr @ schemaCall d # c # rest"
proof (cases "pathway (outputType d)")
  case TextKind
  with assms(5) have "tr' = fst (respond masterPrompts
      (textPreviewOf ai (previewPromptParts b (file_in d)) d (tr @ [schemaCall d])))"
    by (simp add: handleGenerate_branches [OF assms(1-3)])
  with TextKind assms(4) show ?thesis
    by (auto simp: respond_fst textPreviewOf_trace previewCall_def split: sum.splits)
next
  case ImageKind
  with assms(5) have "tr' = fst (respond masterPrompts
      (imagePreview ai b (aspectRatio d) (tr @ [schemaCall d])))"
    by (simp add: handleGenerate_branches [OF assms(1-3)])
  with ImageKind assms(4) show ?thesis
    by (auto simp: respond_fst imagePreview_trace previewCall_def)
next
  case VideoKind
  with assms(5) obtain r where v: "videoPreview ai b (file_in d) apiKey (tr @ [schemaCall d]) = Some r"
      and t: "tr' = fst (respond masterPrompts r)"
    by (auto simp: handleGenerate_branches [OF assms(1-3)])
  obtain t2 o2 where r: "r = (t2, o2)" by (cases r)
  from videoPreview_trace [OF v [unfolded r]] t r VideoKind assms(4) show ?thesis
    by (auto simp: respond_fst previewCall_def)
qed

lemma previewCall_string: "\<exists>c. previewCall (Str s) d = Some c"
  by (cases "pathway (outputType d)")
     (auto simp: previewCall_def finalPromptForTextPreview_def previewPromptParts_def
        split: option.splits)

text \<open>
  C4, amended. For a non-empty array of prompts, with \<open>e\<close> the first entry whose
  language is \<^verbatim>\<open>english\<close> up to the case of its letters, wherever it stands: the base
  prompt is the \<^verbatim>\<open>prompt\<close> of \<open>e\<close> when that is \<open>truthy\<close> (for a string: not empty), and the
  \<^verbatim>\<open>prompt\<close> of the first entry of the array otherwise; without such an entry it is the
  \<^verbatim>\<open>prompt\<close> of the first entry. The first call of the preview branch carries this base
  prompt. \<open>isEnglish p = Inr False\<close> says that \<open>p\<close> has a language, a string, which is
  not \<^verbatim>\<open>english\<close>; on the entries that follow the schema these readings are the fields
  of the entry, and the base prompt is a string, for which the preview call exists.
\<close>

theorem base_prompt_selection:
  assumes "entries \<noteq> []"
  shows "(\<forall>pre e post. entries = pre @ e # post \<and> (\<forall>p\<in>set pre. isEnglish p = Inr False) \<and>
                         isEnglish e = Inr True \<longrightarrow>
            basePromptForPreview (Arr entries) =
              Inr (if truthy (property e ''prompt'') then property e ''prompt''
                   else property (hd entries) ''prompt'')) \<and>
         ((\<forall>p\<in>set entries. isEnglish p = Inr False) \<longrightarrow>
            basePromptForPreview (Arr entries) = Inr (property (hd entries) ''prompt'')) \<and>
         (isEnglish q = Inr True \<longleftrightarrow>
            (\<exists>c1 c2 c3 c4 c5 c6 c7. property q ''language'' = Str [c1, c2, c3, c4, c5, c6, c7] \<and>
               (c1 = CHR ''e'' \<or> c1 = CHR ''E'') \<and> (c2 = CHR ''n'' \<or> c2 = CHR ''N'') \<and>
               (c3 = CHR ''g'' \<or> c3 = CHR ''G'') \<and> (c4 = CHR ''l'' \<or> c4 = CHR ''L'') \<and>
               (c5 = CHR ''i'' \<or> c5 = CHR ''I'') \<and> (c6 = CHR ''s'' \<or> c6 = CHR ''S'') \<and>
               (c7 = CHR ''h'' \<or> c7 = CHR ''H''))) \<and>
         (isEnglish (entry l t) = Inr (toLowerCase l = ''english'') \<and>
          property (entry l t) ''language'' = Str l \<and> property (entry l t) ''prompt'' = Str t \<and>
          truthy (Str t) = (t \<noteq> [])) \<and>
         (promptGeneration ai = Resolves (Parsed result) \<and>
          masterPromptsOf result = Inr (Arr entries) \<and>
          basePromptForPreview (Arr entries) = Inr b \<and> previewCall b d = Some c \<and>
          handleGenerate ai (GeneratePayload d) apiKey tr = Some (tr', out) \<longrightarrow>
            (\<exists>rest. tr' = tr @ schemaCall d # c # rest)) \<and>
         ((\<forall>p\<in>set entries. \<exists>l t. property p ''language'' = Str l \<and>
                                property p ''prompt'' = Str t) \<longrightarrow>
            (\<exists>s c. (\<forall>res. property res ''prompts'' = Arr entries \<longrightarrow>
                           masterPromptsOf res = Inr (Arr entries)) \<and>
                   basePromptForPreview (Arr entries) = Inr (Str s) \<and>
                   previewCall (Str s) d = Some c))"
proof -
  have english: "\<forall>pre e post. entries = pre @ e # post \<and> (\<forall>p\<in>set pre. isEnglish p = Inr False) \<and>
                         isEnglish e = Inr True \<longrightarrow>
            basePromptForPreview (Arr entries) =
              Inr (if truthy (property e ''prompt'') then property e ''prompt''
                   else property (hd entries) ''prompt'')"
    using basePrompt_english by blast
  have first: "(\<forall>p\<in>set entries. isEnglish p = Inr False) \<longrightarrow>
            basePromptForPreview (Arr entries) = Inr (property (hd entries) ''prompt'')"
    using basePrompt_first [OF assms] by blast
  have typed: "isEnglish (entry l t) = Inr (toLowerCase l = ''english'')"
    "property (entry l t) ''language'' = Str l" "property (entry l t) ''prompt'' = Str t"
    "truthy (Str t) = (t \<noteq> [])"
    by simp_all
  have used: "promptGeneration ai = Resolves (Parsed result) \<and>
          masterPromptsOf result = Inr (Arr entries) \<and>
          basePromptForPreview (Arr entries) = Inr b \<and> previewCall b d = Some c \<and>
          handleGenerate ai (GeneratePayload d) apiKey tr = Some (tr', out) \<longrightarrow>
            (\<exists>rest. tr' = tr @ schemaCall d # c # rest)"
    using preview_call_carries_base by blast
  have schema: "(\<forall>p\<in>set entries. \<exists>l t. property p ''language'' = Str l \<and>
                                property p ''prompt'' = Str t) \<longrightarrow>
            (\<exists>s c. (\<forall>res. property res ''prompts'' = Arr entries \<longrightarrow>
                           masterPromptsOf res = Inr (Arr entries)) \<and>
                   basePromptForPreview (Arr entries) = Inr (Str s) \<and>
                   previewCall (Str s) d = Some c)"
  proof
    assume "\<forall>p\<in>set entries. \<exists>l t. property p ''language'' = Str l \<and> property p ''prompt'' = Str t"
    from schema_base [OF assms this] obtain s
      where s: "basePromptForPreview (Arr entries) = Inr (Str s)"
      by blast
    obtain c where c: "previewCall (Str s) d = Some c" using previewCall_string by blast
    have "\<forall>res. property res ''prompts'' = Arr entries \<longrightarrow> masterPromptsOf res = Inr (Arr entries)"
      using prompts_property assms by blast
    with s c show "\<exists>s c. (\<forall>res. property res ''prompts'' = Arr entries \<longrightarrow>
                           masterPromptsOf res = Inr (Arr entries)) \<and>
                   basePromptForPreview (Arr entries) = Inr (Str s) \<and>
                   previewCall (Str s) d = Some c"
      by blast
  qed
  from english first isEnglish_iff [of q] typed used schema show ?thesis by (intro conjI)
qed

text \<open>
  C4, amended, at the prompts French then English: the English
  text \<^verbatim>\<open>X\<close> is the base prompt although it comes second.
\<close>

theorem base_prompt_selection_witness:
  "basePromptForPreview (Arr [entry ''French'' ''F'', entry ''English'' ''X'']) = Inr (Str ''X'')"
proof -
  let ?fr = "entry ''French'' ''F''"
  let ?en = "entry ''English'' ''X''"
  have n: "[?fr, ?en] \<noteq> []" by simp
  have e: "isEnglish ?en = Inr True" "isEnglish ?fr = Inr False" by (simp_all add: toLowerCase_def)
  from base_prompt_selection [OF n]
  have "\<forall>pre e post. [?fr, ?en] = pre @ e # post \<and> (\<forall>p\<in>set pre. isEnglish p = Inr False) \<and>
          isEnglish e = Inr True \<longrightarrow>
          basePromptForPreview (Arr [?fr, ?en]) =
            Inr (if truthy (property e ''prompt'') then property e ''prompt''
                 else property (hd [?fr, ?en]) ''prompt'')"
    by (rule conjunct1)
  then have "[?fr, ?en] = [?fr] @ ?en # [] \<and> (\<forall>p\<in>set [?fr]. isEnglish p = Inr False) \<and>
          isEnglish ?en = Inr True \<longrightarrow>
          basePromptForPreview (Arr [?fr, ?en]) =
            Inr (if truthy (property ?en ''prompt'') then property ?en ''prompt''
                 else property (hd [?fr, ?en]) ''prompt'')"
    by blast
  with e show ?thesis by simp
qed

text \<open>
  C4 as stated fails when the English entry has empty text: the base prompt is then
  the text of the first entry (here the French one), not the English text.
\<close>

theorem base_prompt_counterexample:
  "isEnglish (entry ''English'' []) = Inr True \<and>
   basePromptForPreview (Arr [entry ''French'' ''F'', entry ''English'' []]) = Inr (Str ''F'') \<and>
   Str ''F'' \<noteq> property (entry ''English'' []) ''prompt''"
  by (simp add: basePromptForPreview_def isEnglish_def getProperty_def property_def entry_def
        toLowerCase_def)

section \<open>The chosen branch\<close>

lemma call_pathway_poll_events: "e \<in> set (poll_events i ops) \<Longrightarrow> call_pathway e = Some VideoKind"
  by (induction ops) (auto simp: poll_events_def)

lemma textPreviewOf_calls:
  "\<exists>calls. fst (textPreviewOf ai parts d tr) = tr @ calls \<and>
     (calls = [] \<or> (\<exists>final. calls = [GenerateContentParts final (temperature d) (topP d)]))"
  by (cases "finalPromptForTextPreview parts (previewLanguage d)")
     (simp_all add: textPreviewOf_trace)

lemma handleGenerate_trace:
  assumes "handleGenerate ai (GeneratePayload d) apiKey tr = Some (tr', out)"
  shows "\<exists>calls. tr' = tr @ schemaCall d # calls \<and>
           (calls = [] \<or>
            (pathway (outputType d) = TextKind \<and>
               (\<exists>final. calls = [GenerateContentParts final (temperature d) (topP d)])) \<or>
            (pathway (outputType d) = ImageKind \<and> (\<exists>b. calls = [GenerateImages b (aspectRatio d)])) \<or>
            (pathway (outputType d) = VideoKind \<and>
               (\<exists>b ops rest. calls = GenerateVideos b (videoGenImage (file_in d)) #
                                        poll_events 5000 ops @ rest \<and>
                              (rest = [] \<or> (\<exists>url. rest = [Fetch url])))))"
proof -
  from handleGenerate_stage [of ai d apiKey tr] show ?thesis
  proof
    assume "\<exists>e. handleGenerate ai (GeneratePayload d) apiKey tr = Some (tr @ [schemaCall d], Inl e)"
    with assms have "tr' = tr @ schemaCall d # []" by auto
    then show ?thesis by blast
  next
    assume "\<exists>result masterPrompts b. promptGeneration ai = Resolves (Parsed result) \<and>
      masterPromptsOf result = Inr masterPrompts \<and> basePromptForPreview masterPrompts = Inr b"
    then obtain result masterPrompts b where p: "promptGeneration ai = Resolves (Parsed result)"
        "masterPromptsOf result = Inr masterPrompts" "basePromptForPreview masterPrompts = Inr b"
      by blast
    note h = assms [unfolded handleGenerate_branches [OF p]]
    show ?thesis
    proof (cases "pathway (outputType d)")
      case TextKind
      with h have t: "tr' = fst (respond masterPrompts
          (textPreviewOf ai (previewPromptParts b (file_in d)) d (tr @ [schemaCall d])))"
        by simp
      obtain calls where "fst (textPreviewOf ai (previewPromptParts b (file_in d)) d (tr @ [schemaCall d])) =
            (tr @ [schemaCall d]) @ calls"
          and "calls = [] \<or> (\<exists>final. calls = [GenerateContentParts final (temperature d) (topP d)])"
        using textPreviewOf_calls by blast
      with t TextKind have "tr' = tr @ schemaCall d # calls \<and>
           (calls = [] \<or>
            (pathway (outputType d) = TextKind \<and>
               (\<exists>final. calls = [GenerateContentParts final (temperature d) (topP d)])))"
        by (auto simp: respond_fst)
      then show ?thesis by blast
    next
      case ImageKind
      with h have "tr' = fst (respond masterPrompts
          (imagePreview ai b (aspectRatio d) (tr @ [schemaCall d])))"
        by simp
      then have "tr' = tr @ schemaCall d # [GenerateImages b (aspectRatio d)]"
        by (simp add: respond_fst imagePreview_trace)
      with ImageKind show ?thesis by blast
    next
      case VideoKind
      with h obtain r where v: "videoPreview ai b (file_in d) apiKey (tr @ [schemaCall d]) = Some r"
          and t: "tr' = fst (respond masterPrompts r)"
        by auto
      obtain t2 o2 where r: "r = (t2, o2)" by (cases r)
      from videoPreview_trace [OF v [unfolded r]] obtain ops rest
        where t2: "t2 = (tr @ [schemaCall d]) @
                          GenerateVideos b (videoGenImage (file_in d)) # poll_events 5000 ops @ rest"
          and rest: "rest = [] \<or> (\<exists>url. rest = [Fetch url])"
        by blast
      have "tr' = tr @ schemaCall d #
                    (GenerateVideos b (videoGenImage (file_in d)) # poll_events 5000 ops @ rest)"
        using t r t2 by (simp add: respond_fst)
      with rest VideoKind show ?thesis by blast
    qed
  qed
qed

lemma handleGenerate_pathway_calls:
  assumes "handleGenerate ai (GeneratePayload d) apiKey tr = Some (tr', out)"
  shows "\<exists>calls. tr' = tr @ calls \<and>
           (\<forall>e\<in>set calls. call_pathway e = None \<or> call_pathway e = Some (pathway (outputType d)))"
proof -
  from handleGenerate_trace [OF assms] obtain calls
    where t: "tr' = tr @ schemaCall d # calls"
      and c: "calls = [] \<or>
            (pathway (outputType d) = TextKind \<and>
               (\<exists>final. calls = [GenerateContentParts final (temperature d) (topP d)])) \<or>
            (pathway (outputType d) = ImageKind \<and> (\<exists>b. calls = [GenerateImages b (aspectRatio d)])) \<or>
            (pathway (outputType d) = VideoKind \<and>
               (\<exists>b ops rest. calls = GenerateVideos b (videoGenImage (file_in d)) #
                                        poll_events 5000 ops @ rest \<and>
                              (rest = [] \<or> (\<exists>url. rest = [Fetch url]))))"
    by blast
  have "\<forall>e\<in>set (schemaCall d # calls).
          call_pathway e = None \<or> call_pathway e = Some (pathway (outputType d))"
    using c by (auto dest: call_pathway_poll_events)
  with t show ?thesis by blast
qed

text \<open>
  C2. The branch of \<^verbatim>\<open>handleGenerate\<close> is a function of the output type alone: image
  for the three image tokens, video for the two video tokens, text for every other
  string. Once the prompts and the base prompt are there (as they are for every
  completion that follows the schema with a non-empty list), the handler runs the
  branch this function names; no call of a run belongs to another branch, and every
  successful response carries the preview kind of that branch.
\<close>

theorem output_type_classification:
  "pathway ''Image'' = ImageKind \<and>
   pathway ([CHR 0xE1, CHR 0xBA, CHR 0xA2] @ ''nh'') = ImageKind \<and>
   pathway (''H'' @ [CHR 0xC3, CHR 0xAC] @ ''nh '' @ [CHR 0xE1, CHR 0xBA, CHR 0xA3] @ ''nh'') = ImageKind \<and>
   pathway ''Video'' = VideoKind \<and>
   pathway (''Phim ng'' @ [CHR 0xE1, CHR 0xBA, CHR 0xAF] @ ''n'') = VideoKind \<and>
   (ot \<notin> {''Image'', [CHR 0xE1, CHR 0xBA, CHR 0xA2] @ ''nh'',
            ''H'' @ [CHR 0xC3, CHR 0xAC] @ ''nh '' @ [CHR 0xE1, CHR 0xBA, CHR 0xA3] @ ''nh'',
            ''Video'', ''Phim ng'' @ [CHR 0xE1, CHR 0xBA, CHR 0xAF] @ ''n''} \<longrightarrow>
      pathway ot = TextKind) \<and>
   (promptGeneration ai = Resolves (Parsed result) \<and>
    masterPromptsOf result = Inr masterPrompts \<and> basePromptForPreview masterPrompts = Inr b \<longrightarrow>
      handleGenerate ai (GeneratePayload d) apiKey tr =
         (case pathway (outputType d) of
            ImageKind \<Rightarrow>
              Some (respond masterPrompts (imagePreview ai b (aspectRatio d) (tr @ [schemaCall d])))
          | VideoKind \<Rightarrow>
              map_option (respond masterPrompts)
                (videoPreview ai b (file_in d) apiKey (tr @ [schemaCall d]))
          | TextKind \<Rightarrow>
              Some (respond masterPrompts
                      (textPreviewOf ai (previewPromptParts b (file_in d)) d (tr @ [schemaCall d]))))) \<and>
   (handleGenerate ai (GeneratePayload d) apiKey tr = Some (tr', out) \<longrightarrow>
      (\<exists>calls. tr' = tr @ calls \<and>
         (\<forall>e\<in>set calls. call_pathway e = None \<or>
                           call_pathway e = Some (pathway (outputType d))))) \<and>
   (handleGenerate ai (GeneratePayload d) apiKey tr = Some (tr', Inr resp) \<longrightarrow>
      (\<exists>prompts pv. resp = (200, GenerateBody prompts pv) \<and>
                     ptype pv = Some (pathway (outputType d)))) \<and>
   (\<forall>res entries.
            property res ''prompts'' = Arr entries \<and> entries \<noteq> [] \<and>
            (\<forall>p\<in>set entries. \<exists>l t. property p ''language'' = Str l \<and>
                                   property p ''prompt'' = Str t) \<longrightarrow>
            (\<exists>s. masterPromptsOf res = Inr (Arr entries) \<and>
                 basePromptForPreview (Arr entries) = Inr (Str s) \<and> ToString (Str s) = Inr s))"
proof -
  have tokens: "pathway ''Image'' = ImageKind"
    "pathway ([CHR 0xE1, CHR 0xBA, CHR 0xA2] @ ''nh'') = ImageKind"
    "pathway (''H'' @ [CHR 0xC3, CHR 0xAC] @ ''nh '' @ [CHR 0xE1, CHR 0xBA, CHR 0xA3] @ ''nh'') = ImageKind"
    "pathway ''Video'' = VideoKind"
    "pathway (''Phim ng'' @ [CHR 0xE1, CHR 0xBA, CHR 0xAF] @ ''n'') = VideoKind"
    by (simp_all add: pathway_def IMAGE_OUTPUT_TYPES_def VIDEO_OUTPUT_TYPES_def)
  have other: "ot \<notin> {''Image'', [CHR 0xE1, CHR 0xBA, CHR 0xA2] @ ''nh'',
            ''H'' @ [CHR 0xC3, CHR 0xAC] @ ''nh '' @ [CHR 0xE1, CHR 0xBA, CHR 0xA3] @ ''nh'',
            ''Video'', ''Phim ng'' @ [CHR 0xE1, CHR 0xBA, CHR 0xAF] @ ''n''} \<longrightarrow>
      pathway ot = TextKind"
    by (simp add: pathway_def IMAGE_OUTPUT_TYPES_def VIDEO_OUTPUT_TYPES_def)
  have branch: "promptGeneration ai = Resolves (Parsed result) \<and>
    masterPromptsOf result = Inr masterPrompts \<and> basePromptForPreview masterPrompts = Inr b \<longrightarrow>
      handleGenerate ai (GeneratePayload d) apiKey tr =
         (case pathway (outputType d) of
            ImageKind \<Rightarrow>
              Some (respond masterPrompts (imagePreview ai b (aspectRatio d) (tr @ [schemaCall d])))
          | VideoKind \<Rightarrow>
              map_option (respond masterPrompts)
                (videoPreview ai b (file_in d) apiKey (tr @ [schemaCall d]))
          | TextKind \<Rightarrow>
              Some (respond masterPrompts
                      (textPreviewOf ai (previewPromptParts b (file_in d)) d (tr @ [schemaCall d]))))"
    using handleGenerate_branches by blast
  have schema: "(\<forall>res entries.
            property res ''prompts'' = Arr entries \<and> entries \<noteq> [] \<and>
            (\<forall>p\<in>set entries. \<exists>l t. property p ''language'' = Str l \<and>
                                   property p ''prompt'' = Str t) \<longrightarrow>
            (\<exists>s. masterPromptsOf res = Inr (Arr entries) \<and>
                 basePromptForPreview (Arr entries) = Inr (Str s) \<and> ToString (Str s) = Inr s))"
    by (rule schema_facts)
  have kind: "handleGenerate ai (GeneratePayload d) apiKey tr = Some (tr', Inr resp) \<longrightarrow>
      (\<exists>prompts pv. resp = (200, GenerateBody prompts pv) \<and>
                     ptype pv = Some (pathway (outputType d)))"
    using handleGenerate_success by blast
  have calls: "handleGenerate ai (GeneratePayload d) apiKey tr = Some (tr', out) \<longrightarrow>
      (\<exists>calls. tr' = tr @ calls \<and>
         (\<forall>e\<in>set calls. call_pathway e = None \<or>
                           call_pathway e = Some (pathway (outputType d))))"
    using handleGenerate_pathway_calls by blast
  from tokens other branch calls kind schema show ?thesis by (intro conjI)
qed

text \<open>
  C2, at one token of each kind: \<^verbatim>\<open>Image\<close> yields an image preview and \<^verbatim>\<open>Email\<close>, which
  is in neither list, a text preview.
\<close>

theorem output_type_classification_witness:
  "pathway ''Image'' = ImageKind \<and> pathway ''Video'' = VideoKind \<and> pathway ''Email'' = TextKind \<and>
   map_option snd
     (handleGenerate (sample_provider (Resolves (completion two_prompts)) pending (\<lambda>k. Resolves pending))
        (GeneratePayload (sample_request ''Image'' None)) ''k'' []) =
     Some (Inr (200, GenerateBody (Arr two_prompts)
                  \<lparr>ptype = Some ImageKind, content = Some ''data:image/png;base64,aGk=''\<rparr>)) \<and>
   map_option snd
     (handleGenerate (sample_provider (Resolves (completion two_prompts)) pending (\<lambda>k. Resolves pending))
        (GeneratePayload (sample_request ''Email'' None)) ''k'' []) =
     Some (Inr (200, GenerateBody (Arr two_prompts)
                  \<lparr>ptype = Some TextKind, content = Some ''xin chao''\<rparr>))"
  using output_type_classification
          [where ot = "''Email''"
             and ai = "sample_provider (Resolves (completion two_prompts)) pending (\<lambda>k. Resolves pending)"
             and masterPrompts = "Arr two_prompts" and d = "sample_request ''Email'' None"
             and apiKey = "''k''" and tr = "[]"]
  by (simp add: sample_image_run sample_text_run)

section \<open>Inline files\<close>

lemma split_str_nonempty: "split_str c s \<noteq> []"
  by (induction s) (auto split: list.splits)

lemma split_str_first:
  "split_str c s =
     takeWhile (\<lambda>x. x \<noteq> c) s #
       (if c \<in> set s then split_str c (tl (dropWhile (\<lambda>x. x \<noteq> c) s)) else [])"
proof (induction s)
  case Nil
  show ?case by simp
next
  case (Cons x s)
  show ?case
  proof (cases "x = c")
    case True
    then show ?thesis by simp
  next
    case False
    with Cons show ?thesis by (cases "split_str c s") (auto simp: split_str_nonempty)
  qed
qed

lemma base64Data_between_commas:
  "base64Data f =
     (if CHR '','' \<in> set (data f)
      then Some (takeWhile (\<lambda>x. x \<noteq> CHR '','') (tl (dropWhile (\<lambda>x. x \<noteq> CHR '','') (data f))))
      else None)"
proof -
  let ?rest = "tl (dropWhile (\<lambda>x. x \<noteq> CHR '','') (data f))"
  show ?thesis
  proof (cases "CHR '','' \<in> set (data f)")
    case True
    then have "split_str CHR '','' (data f) =
        takeWhile (\<lambda>x. x \<noteq> CHR '','') (data f) # split_str CHR '','' ?rest"
      by (subst split_str_first) simp
    moreover obtain b bs where "split_str CHR '','' ?rest = b # bs"
      "b = takeWhile (\<lambda>x. x \<noteq> CHR '','') ?rest"
      by (subst (asm) split_str_first) (metis split_str_first)
    ultimately show ?thesis using True by (simp add: base64Data_def)
  next
    case False
    then have "split_str CHR '','' (data f) = [takeWhile (\<lambda>x. x \<noteq> CHR '','') (data f)]"
      by (subst split_str_first) simp
    with False show ?thesis by (simp add: base64Data_def)
  qed
qed

lemma previewPromptParts_no_payload:
  "base64Data f = None \<or> base64Data f = Some [] \<Longrightarrow>
   previewPromptParts b (Some f) = previewPromptParts b None"
  by (auto simp: previewPromptParts_def)

lemma metaPrompt_file [simp]: "metaPrompt (d\<lparr>file_in := fl\<rparr>) ls = metaPrompt d ls"
  by (simp add: metaPrompt_def)

lemma handleGenerate_no_payload:
  assumes "file_in d = Some f" and "base64Data f = None \<or> base64Data f = Some []"
      and "pathway (outputType d) = TextKind"
  shows "handleGenerate ai (GeneratePayload d) apiKey tr =
         handleGenerate ai (GeneratePayload (d\<lparr>file_in := None\<rparr>)) apiKey tr"
proof -
  have i: "outputType d \<notin> set IMAGE_OUTPUT_TYPES" and v: "outputType d \<notin> set VIDEO_OUTPUT_TYPES"
    using assms(3) by (auto simp: pathway_def split: if_splits)
  have t: "textPreviewOf ai parts (d\<lparr>file_in := None\<rparr>) t0 = textPreviewOf ai parts d t0" for parts t0
    by (simp add: textPreviewOf_def cong: sum.case_cong)
  show ?thesis
    using i v previewPromptParts_no_payload [OF assms(2)]
    by (simp add: handleGenerate_def Let_def assms(1) t
          cong: promise.case_cong parsed.case_cong option.case_cong sum.case_cong if_cong)
qed

lemma text_run:
  assumes "promptGeneration ai = Resolves (Parsed result)"
      and "masterPromptsOf result = Inr masterPrompts"
      and "basePromptForPreview masterPrompts = Inr b"
      and "pathway (outputType d) = TextKind" and "textPreview ai = Resolves txt"
      and "previewPromptParts b (file_in d) = [TextPart b]" and "ToString b = Inr t"
  shows "handleGenerate ai (GeneratePayload d) apiKey tr =
           Some (tr @ [schemaCall d,
                       GenerateContentParts
                         [TextPart (Str (t @ [CHR 0x0A, CHR 0x0A] @
                            ''--- IMPORTANT: Please provide your entire response in '' @
                            previewLanguage d @ ''. ---''))]
                         (temperature d) (topP d)],
                 Inr (200, GenerateBody (JSON_stringify masterPrompts) \<lparr>ptype = Some TextKind, content = txt\<rparr>))"
  by (simp add: handleGenerate_branches [OF assms(1-3)] assms(4-7) textPreviewOf_def
        finalPromptForTextPreview_def respond_def jsonResponse_simps)

text \<open>
  C10. A text-pathway request with a file whose data has nothing between the first
  comma and the next one (or the end), or has no comma at all: \<^verbatim>\<open>handleGenerate\<close> and
  \<^verbatim>\<open>onRequestPost\<close> do exactly what they do for the same request without the file,
  trace and result alike. When both completions answer, with prompts and a base prompt
  that has a string form \<open>t\<close> (as in every completion that follows the schema with a
  non-empty list, where the base prompt is a string and \<open>t\<close> is that string), the result
  is the response 200 and the preview request holds the one text part and no inline
  data.
\<close>

theorem inline_file_without_payload_ignored:
  assumes "file_in d = Some f"
      and "base64Data f = None \<or> base64Data f = Some []"
      and "pathway (outputType d) = TextKind"
  shows "handleGenerate ai (GeneratePayload d) apiKey tr =
           handleGenerate ai (GeneratePayload (d\<lparr>file_in := None\<rparr>)) apiKey tr \<and>
         (json request = Resolves \<lparr>btype = Some ''generate'', payload = GeneratePayload d\<rparr> \<and>
          json request' =
            Resolves \<lparr>btype = Some ''generate'', payload = GeneratePayload (d\<lparr>file_in := None\<rparr>)\<rparr> \<longrightarrow>
            onRequestPost env request ai = onRequestPost env request' ai) \<and>
         (promptGeneration ai = Resolves (Parsed result) \<and>
          masterPromptsOf result = Inr masterPrompts \<and>
          basePromptForPreview masterPrompts = Inr b \<and> ToString b = Inr t \<and>
          textPreview ai = Resolves txt \<longrightarrow>
            handleGenerate ai (GeneratePayload d) apiKey tr =
              Some (tr @ [schemaCall d,
                          GenerateContentParts
                            [TextPart (Str (t @ [CHR 0x0A, CHR 0x0A] @
                               ''--- IMPORTANT: Please provide your entire response in '' @
                               previewLanguage d @ ''. ---''))]
                            (temperature d) (topP d)],
                    Inr (200, GenerateBody (JSON_stringify masterPrompts)
                           \<lparr>ptype = Some TextKind, content = txt\<rparr>))) \<and>
         (base64Data f = None \<longleftrightarrow> CHR '','' \<notin> set (data f)) \<and>
         (base64Data f = Some [] \<longleftrightarrow>
            CHR '','' \<in> set (data f) \<and>
            takeWhile (\<lambda>x. x \<noteq> CHR '','') (tl (dropWhile (\<lambda>x. x \<noteq> CHR '','') (data f))) = []) \<and>
         (\<forall>res entries.
            property res ''prompts'' = Arr entries \<and> entries \<noteq> [] \<and>
            (\<forall>p\<in>set entries. \<exists>l t. property p ''language'' = Str l \<and>
                                   property p ''prompt'' = Str t) \<longrightarrow>
            (\<exists>s. masterPromptsOf res = Inr (Arr entries) \<and>
                 basePromptForPreview (Arr entries) = Inr (Str s) \<and> ToString (Str s) = Inr s))"
proof -
  note same = handleGenerate_no_payload [OF assms]
  have relay: "json request = Resolves \<lparr>btype = Some ''generate'', payload = GeneratePayload d\<rparr> \<and>
          json request' =
            Resolves \<lparr>btype = Some ''generate'', payload = GeneratePayload (d\<lparr>file_in := None\<rparr>)\<rparr> \<longrightarrow>
            onRequestPost env request ai = onRequestPost env request' ai"
  proof (intro impI, elim conjE)
    assume r: "json request = Resolves \<lparr>btype = Some ''generate'', payload = GeneratePayload d\<rparr>"
       and r': "json request' =
                  Resolves \<lparr>btype = Some ''generate'', payload = GeneratePayload (d\<lparr>file_in := None\<rparr>)\<rparr>"
    have "dispatch request ai k = dispatch request' ai k" for k
      by (simp add: dispatch_def r r' same)
    then have "dispatch request ai = dispatch request' ai" by (rule ext)
    then show "onRequestPost env request ai = onRequestPost env request' ai"
      unfolding onRequestPost_def by (rule arg_cong)
  qed
  have parts: "previewPromptParts b (file_in d) = [TextPart b]" for b
    using assms(1,2) by (auto simp: previewPromptParts_def)
  have success: "(promptGeneration ai = Resolves (Parsed result) \<and>
          masterPromptsOf result = Inr masterPrompts \<and>
          basePromptForPreview masterPrompts = Inr b \<and> ToString b = Inr t \<and>
          textPreview ai = Resolves txt \<longrightarrow>
            handleGenerate ai (GeneratePayload d) apiKey tr =
              Some (tr @ [schemaCall d,
                          GenerateContentParts
                            [TextPart (Str (t @ [CHR 0x0A, CHR 0x0A] @
                               ''--- IMPORTANT: Please provide your entire response in '' @
                               previewLanguage d @ ''. ---''))]
                            (temperature d) (topP d)],
                    Inr (200, GenerateBody (JSON_stringify masterPrompts)
                           \<lparr>ptype = Some TextKind, content = txt\<rparr>)))"
    using text_run [OF _ _ _ assms(3) _ parts] by blast
  have none: "base64Data f = None \<longleftrightarrow> CHR '','' \<notin> set (data f)"
    by (simp add: base64Data_between_commas)
  have empty: "base64Data f = Some [] \<longleftrightarrow>
      CHR '','' \<in> set (data f) \<and>
      takeWhile (\<lambda>x. x \<noteq> CHR '','') (tl (dropWhile (\<lambda>x. x \<noteq> CHR '','') (data f))) = []"
    by (simp add: base64Data_between_commas)
  have schema: "(\<forall>res entries.
            property res ''prompts'' = Arr entries \<and> entries \<noteq> [] \<and>
            (\<forall>p\<in>set entries. \<exists>l t. property p ''language'' = Str l \<and>
                                   property p ''prompt'' = Str t) \<longrightarrow>
            (\<exists>s. masterPromptsOf res = Inr (Arr entries) \<and>
                 basePromptForPreview (Arr entries) = Inr (Str s) \<and> ToString (Str s) = Inr s))"
    by (rule schema_facts)
  from same relay success none empty schema show ?thesis by (intro conjI)
qed

text \<open>
  C10, at a file whose data URL ends at its comma: the run is the run of the same
  request without a file.
\<close>

theorem inline_file_without_payload_ignored_witness:
  "handleGenerate
     (sample_provider (Resolves (completion two_prompts)) pending (\<lambda>k. Resolves pending))
     (GeneratePayload
        (sample_request ''Email''
           (Some \<lparr>data = ''data:text/plain;base64,'', mimeType = ''text/plain''\<rparr>)))
     ''k'' [] =
   Some ([schemaCall (sample_request ''Email'' None),
          GenerateContentParts
            [TextPart (Str (''X'' @ [CHR 0x0A, CHR 0x0A] @
               ''--- IMPORTANT: Please provide your entire response in Vietnamese. ---''))]
            (Finite ''0.7'') (Finite ''0.95'')],
         Inr (200, GenerateBody (Arr two_prompts) \<lparr>ptype = Some TextKind, content = Some ''xin chao''\<rparr>))"
proof -
  let ?f = "\<lparr>data = ''data:text/plain;base64,'', mimeType = ''text/plain''\<rparr>"
  have a: "file_in (sample_request ''Email'' (Some ?f)) = Some ?f"
    by (simp add: sample_request_def)
  have b: "base64Data ?f = None \<or> base64Data ?f = Some []"
    by (simp add: base64Data_def)
  have c: "(sample_request ''Email'' (Some ?f))\<lparr>file_in := None\<rparr> = sample_request ''Email'' None"
    by (simp add: sample_request_def)
  from inline_file_without_payload_ignored [OF a b sample_pathways(3)]
  have "handleGenerate
          (sample_provider (Resolves (completion two_prompts)) pending (\<lambda>k. Resolves pending))
          (GeneratePayload (sample_request ''Email'' (Some ?f))) ''k'' [] =
        handleGenerate
          (sample_provider (Resolves (completion two_prompts)) pending (\<lambda>k. Resolves pending))
          (GeneratePayload ((sample_request ''Email'' (Some ?f))\<lparr>file_in := None\<rparr>)) ''k'' []"
    by (rule conjunct1)
  then show ?thesis by (simp only: c sample_text_run)
qed

section \<open>Failures\<close>



lemma single_call_poll_events [simp]: "List.map_filter single_call (poll_events i ops) = []"
  by (induction ops) (simp_all add: poll_events_def List.map_filter_simps)














section \<open>Export and import of a project\<close>

text \<open>
  C9, amended. Importing the file that \<^verbatim>\<open>exportProject\<close> wrote for a component \<open>c\<close> into
  any component \<open>c'\<close> gives \<open>c\<close> again in the thirteen input signals that are not numbers
  and in the generation state (prompts, preview, flags); the tab becomes \<^verbatim>\<open>create\<close> and
  what the file does not hold stays as in \<open>c'\<close>. The temperature and topP come back as
  they were when they are finite and not negative zero; negative zero comes back as
  zero, and \<^verbatim>\<open>NaN\<close> and the infinities come back as the defaults 0.7 and 0.95. A property
  that is missing from a document (or null) sets its signal to the value the signal is
  initialised with, and a number that a document holds is taken as it is, infinity and
  negative zero included.
\<close>

theorem export_import_roundtrip:
  "onProjectImport (Some (exportProject c)) c' =
     c\<lparr>activeTab := create,
       s_temperature := (case s_temperature c of
                            NaN \<Rightarrow> Finite ''0.7''
                          | PosInfinity \<Rightarrow> Finite ''0.7''
                          | NegInfinity \<Rightarrow> Finite ''0.7''
                          | NegativeZero \<Rightarrow> Finite ''0''
                          | Finite t \<Rightarrow> Finite t),
       s_topP := (case s_topP c of
                     NaN \<Rightarrow> Finite ''0.95''
                   | PosInfinity \<Rightarrow> Finite ''0.95''
                   | NegInfinity \<Rightarrow> Finite ''0.95''
                   | NegativeZero \<Rightarrow> Finite ''0''
                   | Finite t \<Rightarrow> Finite t),
       promptToAnalyze := promptToAnalyze c', analysisState := analysisState c'\<rparr> \<and>
   ((\<exists>t. s_temperature c = Finite t) \<and> (\<exists>u. s_topP c = Finite u) \<longrightarrow>
      onProjectImport (Some (exportProject c)) c' =
        c\<lparr>activeTab := create, promptToAnalyze := promptToAnalyze c',
          analysisState := analysisState c'\<rparr>) \<and>
   (s_temperature (onProjectImport (Some (JsonText project)) c') =
      (case p_temperature project of None \<Rightarrow> Finite ''0.7'' | Some n \<Rightarrow> n) \<and>
    s_topP (onProjectImport (Some (JsonText project)) c') =
      (case p_topP project of None \<Rightarrow> Finite ''0.95'' | Some n \<Rightarrow> n)) \<and>
   (p_context project = None \<longrightarrow>
      s_context (onProjectImport (Some (JsonText project)) c') = s_context initial) \<and>
   (p_objective project = None \<longrightarrow>
      s_objective (onProjectImport (Some (JsonText project)) c') = s_objective initial) \<and>
   (p_role project = None \<longrightarrow>
      s_role (onProjectImport (Some (JsonText project)) c') = s_role initial) \<and>
   (p_expectations project = None \<longrightarrow>
      s_expectations (onProjectImport (Some (JsonText project)) c') = s_expectations initial) \<and>
   (p_systemInstruction project = None \<longrightarrow>
      s_systemInstruction (onProjectImport (Some (JsonText project)) c') = s_systemInstruction initial) \<and>
   (p_promptBody project = None \<longrightarrow>
      s_promptBody (onProjectImport (Some (JsonText project)) c') = s_promptBody initial) \<and>
   (p_mediaInstruction project = None \<longrightarrow>
      s_mediaInstruction (onProjectImport (Some (JsonText project)) c') = s_mediaInstruction initial) \<and>
   (p_aiPlatform project = None \<longrightarrow>
      s_aiPlatform (onProjectImport (Some (JsonText project)) c') = s_aiPlatform initial) \<and>
   (p_outputType project = None \<longrightarrow>
      s_outputType (onProjectImport (Some (JsonText project)) c') = s_outputType initial) \<and>
   (p_uploadedFile project = None \<longrightarrow>
      s_uploadedFile (onProjectImport (Some (JsonText project)) c') = s_uploadedFile initial) \<and>
   (p_previewLanguage project = None \<longrightarrow>
      s_previewLanguage (onProjectImport (Some (JsonText project)) c') = s_previewLanguage initial) \<and>
   (p_masterLanguages project = None \<longrightarrow>
      s_masterLanguages (onProjectImport (Some (JsonText project)) c') = s_masterLanguages initial) \<and>
   (p_temperature project = None \<longrightarrow>
      s_temperature (onProjectImport (Some (JsonText project)) c') = s_temperature initial) \<and>
   (p_topP project = None \<longrightarrow>
      s_topP (onProjectImport (Some (JsonText project)) c') = s_topP initial) \<and>
   (p_aspectRatio project = None \<longrightarrow>
      s_aspectRatio (onProjectImport (Some (JsonText project)) c') = s_aspectRatio initial) \<and>
   (p_generationState project = None \<longrightarrow>
      generationState (onProjectImport (Some (JsonText project)) c') = generationState initial)"
proof -
  have general: "onProjectImport (Some (exportProject c)) c' =
     c\<lparr>activeTab := create,
       s_temperature := (case s_temperature c of
                            NaN \<Rightarrow> Finite ''0.7''
                          | PosInfinity \<Rightarrow> Finite ''0.7''
                          | NegInfinity \<Rightarrow> Finite ''0.7''
                          | NegativeZero \<Rightarrow> Finite ''0''
                          | Finite t \<Rightarrow> Finite t),
       s_topP := (case s_topP c of
                     NaN \<Rightarrow> Finite ''0.95''
                   | PosInfinity \<Rightarrow> Finite ''0.95''
                   | NegInfinity \<Rightarrow> Finite ''0.95''
                   | NegativeZero \<Rightarrow> Finite ''0''
                   | Finite t \<Rightarrow> Finite t),
       promptToAnalyze := promptToAnalyze c', analysisState := analysisState c'\<rparr>"
    by (cases "s_temperature c"; cases "s_topP c")
       (simp_all add: onProjectImport_def exportProject_def JSON_stringify_project_def JSON_parse_def
          JSON_stringify_number_def nullish_def)
  have exact: "((\<exists>t. s_temperature c = Finite t) \<and> (\<exists>u. s_topP c = Finite u) \<longrightarrow>
      onProjectImport (Some (exportProject c)) c' =
        c\<lparr>activeTab := create, promptToAnalyze := promptToAnalyze c',
          analysisState := analysisState c'\<rparr>)"
    by (auto simp: onProjectImport_def exportProject_def JSON_stringify_project_def JSON_parse_def
          JSON_stringify_number_def nullish_def)
  have reach: "s_temperature (onProjectImport (Some (JsonText project)) c') =
      (case p_temperature project of None \<Rightarrow> Finite ''0.7'' | Some n \<Rightarrow> n)"
    "s_topP (onProjectImport (Some (JsonText project)) c') =
      (case p_topP project of None \<Rightarrow> Finite ''0.95'' | Some n \<Rightarrow> n)"
    by (simp_all add: onProjectImport_def JSON_parse_def nullish_def)
  have defaults:
    "p_context project = None \<longrightarrow>
       s_context (onProjectImport (Some (JsonText project)) c') = s_context initial"
    "p_objective project = None \<longrightarrow>
       s_objective (onProjectImport (Some (JsonText project)) c') = s_objective initial"
    "p_role project = None \<longrightarrow>
       s_role (onProjectImport (Some (JsonText project)) c') = s_role initial"
    "p_expectations project = None \<longrightarrow>
       s_expectations (onProjectImport (Some (JsonText project)) c') = s_expectations initial"
    "p_systemInstruction project = None \<longrightarrow>
       s_systemInstruction (onProjectImport (Some (JsonText project)) c') = s_systemInstruction initial"
    "p_promptBody project = None \<longrightarrow>
       s_promptBody (onProjectImport (Some (JsonText project)) c') = s_promptBody initial"
    "p_mediaInstruction project = None \<longrightarrow>
       s_mediaInstruction (onProjectImport (Some (JsonText project)) c') = s_mediaInstruction initial"
    "p_aiPlatform project = None \<longrightarrow>
       s_aiPlatform (onProjectImport (Some (JsonText project)) c') = s_aiPlatform initial"
    "p_outputType project = None \<longrightarrow>
       s_outputType (onProjectImport (Some (JsonText project)) c') = s_outputType initial"
    "p_uploadedFile project = None \<longrightarrow>
       s_uploadedFile (onProjectImport (Some (JsonText project)) c') = s_uploadedFile initial"
    "p_previewLanguage project = None \<longrightarrow>
       s_previewLanguage (onProjectImport (Some (JsonText project)) c') = s_previewLanguage initial"
    "p_masterLanguages project = None \<longrightarrow>
       s_masterLanguages (onProjectImport (Some (JsonText project)) c') = s_masterLanguages initial"
    "p_temperature project = None \<longrightarrow>
       s_temperature (onProjectImport (Some (JsonText project)) c') = s_temperature initial"
    "p_topP project = None \<longrightarrow>
       s_topP (onProjectImport (Some (JsonText project)) c') = s_topP initial"
    "p_aspectRatio project = None \<longrightarrow>
       s_aspectRatio (onProjectImport (Some (JsonText project)) c') = s_aspectRatio initial"
    "p_generationState project = None \<longrightarrow>
       generationState (onProjectImport (Some (JsonText project)) c') = generationState initial"
    by (simp_all add: onProjectImport_def JSON_parse_def nullish_def initial_def
          defaultMasterLanguages_def defaultGenerationState_def)
  from general exact reach defaults show ?thesis by (intro conjI)
qed

text \<open>
  C9, amended, at a component that was edited in every part of the snapshot, and at a
  document that holds two properties only.
\<close>

theorem export_import_roundtrip_witness:
  "onProjectImport (Some (exportProject edited)) initial =
     edited\<lparr>activeTab := create, promptToAnalyze := [], analysisState := analysisState initial\<rparr> \<and>
   s_context (onProjectImport (Some (JsonText older_snapshot)) edited) = ''launch'' \<and>
   s_role (onProjectImport (Some (JsonText older_snapshot)) edited) = [] \<and>
   s_aiPlatform (onProjectImport (Some (JsonText older_snapshot)) edited) = ''Gemini'' \<and>
   s_outputType (onProjectImport (Some (JsonText older_snapshot)) edited) = ''Image'' \<and>
   s_uploadedFile (onProjectImport (Some (JsonText older_snapshot)) edited) = None \<and>
   s_previewLanguage (onProjectImport (Some (JsonText older_snapshot)) edited) = ''Vietnamese'' \<and>
   s_temperature (onProjectImport (Some (JsonText older_snapshot)) edited) = Finite ''0.7'' \<and>
   s_topP (onProjectImport (Some (JsonText older_snapshot)) edited) = Finite ''0.95'' \<and>
   s_aspectRatio (onProjectImport (Some (JsonText older_snapshot)) edited) = ''1:1''"
proof -
  have f: "(\<exists>t. s_temperature edited = Finite t) \<and> (\<exists>u. s_topP edited = Finite u)"
    by (simp add: edited_def)
  from export_import_roundtrip [of edited initial older_snapshot,
         THEN conjunct2, THEN conjunct1, THEN mp, OF f]
  have a: "onProjectImport (Some (exportProject edited)) initial =
      edited\<lparr>activeTab := create, promptToAnalyze := promptToAnalyze initial,
        analysisState := analysisState initial\<rparr>" .
  have b: "promptToAnalyze initial = []" by (simp add: initial_def)
  have c: "s_context (onProjectImport (Some (JsonText older_snapshot)) edited) = ''launch'' \<and>
   s_role (onProjectImport (Some (JsonText older_snapshot)) edited) = [] \<and>
   s_aiPlatform (onProjectImport (Some (JsonText older_snapshot)) edited) = ''Gemini'' \<and>
   s_outputType (onProjectImport (Some (JsonText older_snapshot)) edited) = ''Image'' \<and>
   s_uploadedFile (onProjectImport (Some (JsonText older_snapshot)) edited) = None \<and>
   s_previewLanguage (onProjectImport (Some (JsonText older_snapshot)) edited) = ''Vietnamese'' \<and>
   s_temperature (onProjectImport (Some (JsonText older_snapshot)) edited) = Finite ''0.7'' \<and>
   s_topP (onProjectImport (Some (JsonText older_snapshot)) edited) = Finite ''0.95'' \<and>
   s_aspectRatio (onProjectImport (Some (JsonText older_snapshot)) edited) = ''1:1''"
    using export_import_roundtrip [of edited edited older_snapshot]
    by (simp add: older_snapshot_def initial_def onProjectImport_def JSON_parse_def nullish_def)
  from a b c show ?thesis by simp
qed

text \<open>
  C9 as stated fails for a temperature that is infinite and a topP that is negative
  zero, both values of the type \<^verbatim>\<open>number\<close> that \<^verbatim>\<open>onProjectImport\<close> itself sets from a
  file holding \<^verbatim>\<open>1e999\<close> and \<^verbatim>\<open>-0\<close>: the export writes \<^verbatim>\<open>null\<close> and \<^verbatim>\<open>0\<close>, and the import
  of that file gives the temperature 0.7 and the topP zero. A temperature \<^verbatim>\<open>NaN\<close> comes
  back as 0.7 as well.
\<close>

theorem export_import_counterexample:
  "s_temperature
     (onProjectImport
        (Some (JsonText (older_snapshot\<lparr>p_temperature := Some PosInfinity,
                                         p_topP := Some NegativeZero\<rparr>))) initial) = PosInfinity \<and>
   s_topP
     (onProjectImport
        (Some (JsonText (older_snapshot\<lparr>p_temperature := Some PosInfinity,
                                         p_topP := Some NegativeZero\<rparr>))) initial) = NegativeZero \<and>
   s_temperature overheated = PosInfinity \<and> s_topP overheated = NegativeZero \<and>
   s_temperature (onProjectImport (Some (exportProject overheated)) initial) = Finite ''0.7'' \<and>
   s_topP (onProjectImport (Some (exportProject overheated)) initial) = Finite ''0'' \<and>
   s_temperature
     (onProjectImport (Some (exportProject (edited\<lparr>s_temperature := NaN\<rparr>))) initial) =
     Finite ''0.7'' \<and>
   Finite ''0.7'' \<noteq> PosInfinity \<and> Finite ''0'' \<noteq> NegativeZero \<and> Finite ''0.7'' \<noteq> NaN"
  by (simp add: overheated_def edited_def initial_def older_snapshot_def onProjectImport_def
        exportProject_def JSON_stringify_project_def JSON_parse_def JSON_stringify_number_def nullish_def)

end
